theory Spec2Isabelle
  imports Main "HOL-Library.AList"
begin

section \<open>JavaScript primitives used by TreasureHuntForm\<close>

text \<open>
  Strings are lists of characters. A JavaScript number is a double. The numbers of this
  component come out of \<open>parseInt\<close> or are loop counters, so they are \<open>NaN\<close>, an
  integer that a double can hold, or an infinity. \<open>Num\<close> carries the integer; it is never
  applied to an integer that is not a double. The exhaustion of memory by very large
  arrays and objects is outside the model; the limit on array lengths is inside it.
\<close>

datatype number = NaN | Num int | PosInf | NegInf

definition isNaN :: "number \<Rightarrow> bool" where
  "isNaN x = (x = NaN)"

text \<open>\<open>x < y\<close> on numbers; every comparison with \<open>NaN\<close> is false.\<close>

fun num_less :: "number \<Rightarrow> number \<Rightarrow> bool" where
  "num_less (Num a) (Num b) = (a < b)"
| "num_less (Num a) PosInf = True"
| "num_less NegInf (Num b) = True"
| "num_less NegInf PosInf = True"
| "num_less _ _ = False"

definition num_lt :: "number \<Rightarrow> number \<Rightarrow> bool" where
  "num_lt x y = num_less x y"

definition num_gt :: "number \<Rightarrow> number \<Rightarrow> bool" where
  "num_gt x y = num_less y x"

definition num_le :: "number \<Rightarrow> number \<Rightarrow> bool" where
  "num_le x y = (x \<noteq> NaN \<and> y \<noteq> NaN \<and> \<not> num_less y x)"

definition is_digit :: "char \<Rightarrow> bool" where
  "is_digit c = (c \<in> set ''0123456789'')"

text \<open>
  The white space and line terminators that \<open>parseInt\<close> skips, as far as they are
  single characters of the 8-bit range: TAB, LF, VT, FF, CR, SP and NBSP.
\<close>

definition is_whitespace :: "char \<Rightarrow> bool" where
  "is_whitespace c = ((of_char c :: nat) \<in> {9, 10, 11, 12, 13, 32, 160})"

definition digit_val :: "char \<Rightarrow> int" where
  "digit_val c = of_char c - 48"

definition digits_value :: "string \<Rightarrow> int" where
  "digits_value ds = foldl (\<lambda>a c. 10 * a + digit_val c) 0 ds"

text \<open>
  The double nearest to a non-negative integer, ties to the even significand; \<open>None\<close>
  when the result is beyond the largest finite double. Below \<open>2^53\<close> every such
  integer is a double.
\<close>

function bit_length :: "int \<Rightarrow> nat" where
  "bit_length k = (if k \<le> 0 then 0 else Suc (bit_length (k div 2)))"
  by pat_completeness auto
termination
  by (relation "measure nat") auto

declare bit_length.simps [simp del]

definition round_to_double :: "int \<Rightarrow> int option" where
  "round_to_double k =
     (if k < 2 ^ 53 then Some k
      else
        (let e = bit_length k - 53;
             q = k div 2 ^ e;
             r = k mod 2 ^ e;
             half = 2 ^ (e - 1);
             q' = (if half < r \<or> (r = half \<and> odd q) then q + 1 else q);
             v = q' * 2 ^ e
         in if 2 ^ 1024 \<le> v then None else Some v))"

text \<open>
  \<open>parseInt(s, 10)\<close>: skip leading white space, read an optional sign, then the longest
  run of decimal digits; \<open>NaN\<close> when that run is empty. Whatever follows the digits is
  ignored. The value of the digits, all of them taken into account, becomes the nearest
  double, or an infinity when it is beyond the doubles.
\<close>

definition parseInt :: "string \<Rightarrow> number" where
  "parseInt s =
     (let S = dropWhile is_whitespace s;
          negative = (case S of c # _ \<Rightarrow> c = CHR ''-'' | [] \<Rightarrow> False);
          S' = (case S of c # r \<Rightarrow> if c = CHR ''-'' \<or> c = CHR ''+'' then r else S | [] \<Rightarrow> S);
          Z = takeWhile is_digit S'
      in if Z = [] then NaN
         else (case round_to_double (digits_value Z) of
                 None \<Rightarrow> (if negative then NegInf else PosInf)
               | Some v \<Rightarrow> Num (if negative then - v else v)))"

text \<open>
  A value that may be \<open>undefined\<close> is an option. \<open>parseInt(undefined, 10)\<close> converts its
  argument to the string \<open>undefined\<close> first.
\<close>

definition parseInt_val :: "string option \<Rightarrow> number" where
  "parseInt_val v = parseInt (case v of None \<Rightarrow> ''undefined'' | Some s \<Rightarrow> s)"

text \<open>The decimal digits of a natural number and of a non-negative integer.\<close>

definition digit_char :: "nat \<Rightarrow> char" where
  "digit_char d = ''0123456789'' ! d"

fun nat_to_string :: "nat \<Rightarrow> string" where
  "nat_to_string k =
     (if k < 10 then [digit_char k] else nat_to_string (k div 10) @ [digit_char (k mod 10)])"

declare nat_to_string.simps [simp del]

function int_digits :: "int \<Rightarrow> string" where
  "int_digits k =
     (if k < 10 then [digit_char (nat k)] else int_digits (k div 10) @ [digit_char (nat (k mod 10))])"
  by pat_completeness auto
termination
  by (relation "measure nat") auto

declare int_digits.simps [simp del]

text \<open>
  \<open>Number::toString\<close> on a positive integer double \<open>x\<close>, as a template literal,
  \<open>String(x)\<close> and \<open>JSON.stringify\<close> apply it. It takes the least number \<open>k\<close> of
  digits \<open>s\<close> such that \<open>s\<close> times a power of ten is a number that rounds to \<open>x\<close>, the
  value having \<open>n\<close> digits before the decimal point; among several \<open>s\<close> the one closest
  to \<open>x\<close>, and the even one of two equally close. Up to 21 digits the result is \<open>s\<close>
  followed by zeros, beyond that it is in exponent form. An integer below \<open>2^53\<close> is
  written with all its digits.
\<close>

definition digit_candidates :: "int \<Rightarrow> (nat \<times> nat \<times> int) list" where
  "digit_candidates x =
     (let D = length (int_digits x) in
      [(k, n, s).
         k \<leftarrow> [1 ..< 18], n \<leftarrow> [D, D + 1],
         s \<leftarrow> [x div 10 ^ (n - k), x div 10 ^ (n - k) + 1],
         k \<le> n, 10 ^ (k - 1) \<le> s, s < 10 ^ k,
         round_to_double (s * 10 ^ (n - k)) = Some x])"

definition candidate_key :: "int \<Rightarrow> nat \<times> nat \<times> int \<Rightarrow> nat \<times> int \<times> int" where
  "candidate_key x c =
     (case c of (k, n, s) \<Rightarrow> (k, \<bar>s * 10 ^ (n - k) - x\<bar>, s mod 2))"

definition key_less :: "nat \<times> int \<times> int \<Rightarrow> nat \<times> int \<times> int \<Rightarrow> bool" where
  "key_less a b =
     (case (a, b) of ((k, d, p), (k', d', p')) \<Rightarrow>
        k < k' \<or> (k = k' \<and> (d < d' \<or> (d = d' \<and> p < p'))))"

definition shortest_digits :: "int \<Rightarrow> nat \<times> nat \<times> int" where
  "shortest_digits x =
     (case digit_candidates x of
        [] \<Rightarrow> (length (int_digits x), length (int_digits x), x)
      | c # cs \<Rightarrow>
          fold (\<lambda>c' best. if key_less (candidate_key x c') (candidate_key x best) then c' else best)
            cs c)"

definition double_to_string :: "int \<Rightarrow> string" where
  "double_to_string x =
     (if x < 2 ^ 53 then int_digits x
      else
        (case shortest_digits x of (k, n, s) \<Rightarrow>
           (let ds = int_digits s in
            if n \<le> 21 then ds @ replicate (n - k) (CHR ''0'')
            else (if k = 1 then ds else take 1 ds @ ''.'' @ drop 1 ds)
                 @ ''e+'' @ nat_to_string (n - 1))))"

definition int_to_string :: "int \<Rightarrow> string" where
  "int_to_string i =
     (if i < 0 then CHR ''-'' # double_to_string (- i) else double_to_string i)"

definition number_to_string :: "number \<Rightarrow> string" where
  "number_to_string x =
     (case x of
        NaN \<Rightarrow> ''NaN''
      | Num i \<Rightarrow> int_to_string i
      | PosInf \<Rightarrow> ''Infinity''
      | NegInf \<Rightarrow> ''-Infinity'')"

text \<open>
  \<open>Array(len).fill(v)\<close>: a \<open>RangeError\<close> (here its message) unless \<open>len\<close> is an
  integer from 0 to \<open>2^32 - 1\<close>.
\<close>

definition Array_fill :: "number \<Rightarrow> 'a \<Rightarrow> string + 'a list" where
  "Array_fill len v =
     (case len of
        Num k \<Rightarrow>
          if 0 \<le> k \<and> k \<le> 4294967295 then Inr (replicate (nat k) v)
          else Inl ''Invalid array length''
      | _ \<Rightarrow> Inl ''Invalid array length'')"

text \<open>
  A loop \<open>for (let i = 0; i < bound; i++)\<close> counts in doubles: the counter is exact up to
  \<open>2^53\<close> and stays there, so the loop ends only for a bound of at most \<open>2^53\<close>, after
  as many rounds as the bound says (none for \<open>NaN\<close> or a bound below 1).
\<close>

definition loop_ends :: "number \<Rightarrow> bool" where
  "loop_ends bound =
     (case bound of Num b \<Rightarrow> b \<le> 2 ^ 53 | PosInf \<Rightarrow> False | _ \<Rightarrow> True)"

definition loop_rounds :: "number \<Rightarrow> nat" where
  "loop_rounds bound = (case bound of Num b \<Rightarrow> nat b | _ \<Rightarrow> 0)"

text \<open>The regular expressions of the input handlers.\<close>

definition matches_positive :: "string \<Rightarrow> bool" where
  \<comment> \<open>\<open>/^[1-9]\d*$/\<close>\<close>
  "matches_positive v =
     (case v of [] \<Rightarrow> False | c # r \<Rightarrow> c \<in> set ''123456789'' \<and> list_all is_digit r)"

definition matches_digits :: "string \<Rightarrow> bool" where
  \<comment> \<open>\<open>/^\d*$/\<close>\<close>
  "matches_digits v = list_all is_digit v"

definition strip_leading_zeros :: "string \<Rightarrow> string" where
  \<comment> \<open>\<open>value.replace(/^0+/, '')\<close>\<close>
  "strip_leading_zeros v = dropWhile (\<lambda>c. c = CHR ''0'') v"

definition truthy_string :: "string option \<Rightarrow> bool" where
  \<comment> \<open>a string or \<open>undefined\<close>/\<open>null\<close> in a condition: the empty string is falsy\<close>
  "truthy_string v = (case v of None \<Rightarrow> False | Some s \<Rightarrow> s \<noteq> [])"

section \<open>JSON values\<close>

text \<open>
  What \<open>response.json()\<close> yields. Numbers are restricted to the integers among the
  doubles. An object is an association list in insertion order; a parsed object has no
  duplicate keys.
\<close>

datatype json =
    JNull
  | JBool bool
  | JNum int
  | JStr string
  | JArr "json list"
  | JObj "(string \<times> json) list"

text \<open>A JavaScript value that may also be \<open>undefined\<close> is \<open>json option\<close>.\<close>

definition truthy :: "json option \<Rightarrow> bool" where
  "truthy v =
     (case v of
        None \<Rightarrow> False
      | Some JNull \<Rightarrow> False
      | Some (JBool b) \<Rightarrow> b
      | Some (JNum i) \<Rightarrow> i \<noteq> 0
      | Some (JStr s) \<Rightarrow> s \<noteq> []
      | Some (JArr _) \<Rightarrow> True
      | Some (JObj _) \<Rightarrow> True)"

text \<open>
  Reading a property such as \<open>message\<close>, \<open>title\<close>, \<open>id\<close> or \<open>minimumFuel\<close>: a
  \<open>TypeError\<close> on \<open>null\<close> (here \<open>Inl\<close> with the engine's message), \<open>undefined\<close> on a
  primitive, an array or an object without the key.
\<close>

definition null_property_message :: "string \<Rightarrow> string" where
  "null_property_message k = ''Cannot read properties of null (reading '' @ [CHR 0x27] @ k @ [CHR 0x27] @ '')''"

definition get_prop :: "json \<Rightarrow> string \<Rightarrow> string + json option" where
  "get_prop v k =
     (case v of
        JNull \<Rightarrow> Inl (null_property_message k)
      | JObj kvs \<Rightarrow> Inr (map_of kvs k)
      | _ \<Rightarrow> Inr None)"

fun intercalate :: "string \<Rightarrow> string list \<Rightarrow> string" where
  "intercalate sep [] = []"
| "intercalate sep [x] = x"
| "intercalate sep (x # y # zs) = x @ sep @ intercalate sep (y # zs)"

text \<open>\<open>ToString\<close> on a parsed value, as a template literal or \<open>new Error(v)\<close> applies it.\<close>

fun to_string :: "json \<Rightarrow> string" where
  "to_string JNull = ''null''"
| "to_string (JBool b) = (if b then ''true'' else ''false'')"
| "to_string (JNum i) = int_to_string i"
| "to_string (JStr s) = s"
| "to_string (JArr xs) =
     intercalate '','' (map (\<lambda>x. if x = JNull then [] else to_string x) xs)"
| "to_string (JObj kvs) = ''[object Object]''"

text \<open>\<open>JSON.stringify\<close>, with the escapes of \<open>QuoteJSONString\<close>.\<close>

definition hex_digit :: "nat \<Rightarrow> char" where
  "hex_digit d = ''0123456789abcdef'' ! d"

definition quote_char :: "char \<Rightarrow> string" where
  "quote_char c =
     (let k = (of_char c :: nat) in
      if k = 8 then [CHR 0x5C, CHR ''b'']
      else if k = 9 then [CHR 0x5C, CHR ''t'']
      else if k = 10 then [CHR 0x5C, CHR ''n'']
      else if k = 12 then [CHR 0x5C, CHR ''f'']
      else if k = 13 then [CHR 0x5C, CHR ''r'']
      else if k = 34 then [CHR 0x5C, CHR 0x22]
      else if k = 92 then [CHR 0x5C, CHR 0x5C]
      else if k < 32 then [CHR 0x5C, CHR ''u'', CHR ''0'', CHR ''0'', hex_digit (k div 16), hex_digit (k mod 16)]
      else [c])"

definition quote_string :: "string \<Rightarrow> string" where
  "quote_string s = [CHR 0x22] @ concat (map quote_char s) @ [CHR 0x22]"

fun stringify :: "json \<Rightarrow> string" where
  "stringify JNull = ''null''"
| "stringify (JBool b) = (if b then ''true'' else ''false'')"
| "stringify (JNum i) = int_to_string i"
| "stringify (JStr s) = quote_string s"
| "stringify (JArr xs) = ''['' @ intercalate '','' (map stringify xs) @ '']''"
| "stringify (JObj kvs) =
     ''{'' @ intercalate '','' (map (\<lambda>kv. quote_string (fst kv) @ '':'' @ stringify (snd kv)) kvs) @ ''}''"

text \<open>
  A number inside a value handed to \<open>JSON.stringify\<close>: \<open>NaN\<close> and the infinities are
  written \<open>null\<close>.
\<close>

definition json_of_number :: "number \<Rightarrow> json" where
  "json_of_number x = (case x of Num i \<Rightarrow> JNum i | _ \<Rightarrow> JNull)"

section \<open>Component state\<close>

text \<open>
  The validation error map: one optional message for each of N, M and P, and an optional
  object from cell keys \<open>row-col\<close> to messages (\<open>None\<close> is \<open>undefined\<close>). The object
  is an association list in insertion order: assigning to a key replaces its entry or
  appends a new one (\<open>AList.update\<close>), \<open>delete\<close> removes it (\<open>AList.delete\<close>).
\<close>

record ValidationErrors =
  ve_n :: "string option"
  ve_m :: "string option"
  ve_p :: "string option"
  ve_matrix :: "(string \<times> string) list option"

definition no_errors :: ValidationErrors where
  "no_errors = \<lparr>ve_n = None, ve_m = None, ve_p = None, ve_matrix = None\<rparr>"

text \<open>
  The twelve \<open>useState\<close> cells of the component. \<open>result\<close> and \<open>searchResult\<close> hold
  whatever the server's JSON was, \<open>JNull\<close> being \<open>null\<close>; \<open>error\<close> and \<open>searchError\<close>
  are a string or \<open>null\<close>.
\<close>

record form_state =
  st_n :: string
  st_m :: string
  st_p :: string
  st_matrix :: "string list list"
  st_result :: json
  st_error :: "string option"
  st_loading :: bool
  st_validationErrors :: ValidationErrors
  st_searchId :: string
  st_searchResult :: json
  st_searchError :: "string option"
  st_searching :: bool

definition initial_state :: form_state where
  "initial_state =
     \<lparr>st_n = [], st_m = [], st_p = [], st_matrix = [], st_result = JNull, st_error = None,
      st_loading = False, st_validationErrors = no_errors, st_searchId = [],
      st_searchResult = JNull, st_searchError = None, st_searching = False\<rparr>"

definition numN :: "form_state \<Rightarrow> number" where
  "numN st = parseInt (st_n st)"

definition numM :: "form_state \<Rightarrow> number" where
  "numM st = parseInt (st_m st)"

definition numP :: "form_state \<Rightarrow> number" where
  "numP st = parseInt (st_p st)"

text \<open>
  \<open>matrix[i]?.[j]\<close>: \<open>undefined\<close> outside the buffer. An array has elements only at
  indices below \<open>2^32 - 1\<close>; a list that is longer stands for no array of the program,
  and what it holds from there on is out of reach.
\<close>

definition cell_at :: "string list list \<Rightarrow> nat \<Rightarrow> nat \<Rightarrow> string option" where
  "cell_at mx i j =
     (if i < length mx \<and> int i < 4294967295
      then (if j < length (mx ! i) \<and> int j < 4294967295 then Some (mx ! i ! j) else None)
      else None)"

text \<open>\<open>prev[i]?.length ?? 0\<close>\<close>

definition row_length :: "string list list \<Rightarrow> nat \<Rightarrow> nat" where
  "row_length mx i = (if i < length mx then length (mx ! i) else 0)"

definition cell_key :: "nat \<Rightarrow> nat \<Rightarrow> string" where
  "cell_key i j = nat_to_string i @ ''-'' @ nat_to_string j"

section \<open>The resize effect\<close>

text \<open>
  The body of the updater passed to \<open>setMatrix\<close>: a fresh grid of empty strings, built
  with \<open>Array(numN).fill(0).map(() => Array(numM).fill(''))\<close>, then the two nested loops
  that copy what the previous buffer holds. The callback of \<open>map\<close> runs once for each
  row, so \<open>Array(numM)\<close> is evaluated only when there is a row. A \<open>RangeError\<close> of
  \<open>Array\<close> leaves the updater (\<open>Inl\<close>).
\<close>

definition copy_cell :: "string list list \<Rightarrow> nat \<Rightarrow> nat \<Rightarrow> string list list \<Rightarrow> string list list" where
  "copy_cell prev i j newMatrix =
     (case cell_at prev i j of
        Some v \<Rightarrow> newMatrix[i := (newMatrix ! i)[j := v]]
      | None \<Rightarrow> newMatrix)"

definition copy_row :: "nat \<Rightarrow> string list list \<Rightarrow> nat \<Rightarrow> string list list \<Rightarrow> string list list" where
  "copy_row cols prev i newMatrix =
     fold (copy_cell prev i) [0 ..< min cols (row_length prev i)] newMatrix"

definition resize_matrix :: "number \<Rightarrow> number \<Rightarrow> string list list \<Rightarrow> string + string list list" where
  "resize_matrix nN nM prev =
     (case Array_fill nN (0::nat) of
        Inl e \<Rightarrow> Inl e
      | Inr zeros \<Rightarrow>
          (case (if zeros = [] then Inr [] else Array_fill nM []) of
             Inl e \<Rightarrow> Inl e
           | Inr row \<Rightarrow>
               Inr (fold (copy_row (length row) prev) [0 ..< min (length zeros) (length prev)]
                      (map (\<lambda>_. row) zeros))))"

text \<open>
  The effect with dependencies \<open>[n, m]\<close>. Its first branch also replaces a present matrix
  error map by an empty one. \<open>Inl\<close> is an error thrown while the state is updated.
\<close>

definition dims_valid :: "form_state \<Rightarrow> bool" where
  "dims_valid st =
     (\<not> isNaN (numN st) \<and> num_gt (numN st) (Num 0)
      \<and> \<not> isNaN (numM st) \<and> num_gt (numM st) (Num 0))"

definition resize_effect :: "form_state \<Rightarrow> string + form_state" where
  "resize_effect st =
     (if dims_valid st then
        (case resize_matrix (numN st) (numM st) (st_matrix st) of
           Inl e \<Rightarrow> Inl e
         | Inr newMatrix \<Rightarrow>
             (let st1 = st\<lparr>st_matrix := newMatrix\<rparr>
              in if ve_matrix (st_validationErrors st) \<noteq> None
                 then Inr (st1\<lparr>st_validationErrors :=
                             (st_validationErrors st1)\<lparr>ve_matrix := Some []\<rparr>\<rparr>)
                 else Inr st1))
      else Inr (st\<lparr>st_matrix := []\<rparr>))"

section \<open>Input handlers\<close>

text \<open>
  \<open>validationErrors[field]\<close> as a condition, and \<open>delete newErrors[field]\<close>, for the field
  names the record has; any other name reads \<open>undefined\<close>.
\<close>

definition field_error_truthy :: "ValidationErrors \<Rightarrow> string \<Rightarrow> bool" where
  "field_error_truthy ve field =
     (if field = ''n'' then truthy_string (ve_n ve)
      else if field = ''m'' then truthy_string (ve_m ve)
      else if field = ''p'' then truthy_string (ve_p ve)
      else if field = ''matrix'' then ve_matrix ve \<noteq> None
      else False)"

definition delete_field_error :: "ValidationErrors \<Rightarrow> string \<Rightarrow> ValidationErrors" where
  "delete_field_error ve field =
     (if field = ''n'' then ve\<lparr>ve_n := None\<rparr>
      else if field = ''m'' then ve\<lparr>ve_m := None\<rparr>
      else if field = ''p'' then ve\<lparr>ve_p := None\<rparr>
      else if field = ''matrix'' then ve\<lparr>ve_matrix := None\<rparr>
      else ve)"

definition setN :: "string \<Rightarrow> form_state \<Rightarrow> form_state" where
  "setN v st = st\<lparr>st_n := v\<rparr>"

definition setM :: "string \<Rightarrow> form_state \<Rightarrow> form_state" where
  "setM v st = st\<lparr>st_m := v\<rparr>"

definition setP :: "string \<Rightarrow> form_state \<Rightarrow> form_state" where
  "setP v st = st\<lparr>st_p := v\<rparr>"

definition handleNumericInputChange ::
  "(string \<Rightarrow> form_state \<Rightarrow> form_state) \<Rightarrow> string \<Rightarrow> bool \<Rightarrow> string \<Rightarrow> form_state \<Rightarrow> form_state" where
  "handleNumericInputChange setter field allowZero v st =
     (if v = [] \<or> (if allowZero then matches_digits v else matches_positive v) then
        (let st1 = setter v st
         in if field_error_truthy (st_validationErrors st) field
            then st1\<lparr>st_validationErrors := delete_field_error (st_validationErrors st1) field\<rparr>
            else st1)
      else if v = ''0'' \<and> \<not> allowZero \<and> field \<noteq> ''n'' \<and> field \<noteq> ''m'' \<and> field \<noteq> ''p'' then st
      else if \<not> allowZero \<and> (case v of c # _ \<Rightarrow> c = CHR ''0'' | [] \<Rightarrow> False) \<and> length v > 1
           then setter (strip_leading_zeros v) st
      else st)"

text \<open>
  A change of the cell at \<open>(rowIndex, colIndex)\<close>. The grid renders one input per cell of
  the buffer, so the handler exists only for positions inside it; for any other position
  the model gives \<open>None\<close>.
\<close>

definition handleMatrixCellChange :: "nat \<Rightarrow> nat \<Rightarrow> string \<Rightarrow> form_state \<Rightarrow> form_state option" where
  "handleMatrixCellChange rowIndex colIndex v st =
     (if cell_at (st_matrix st) rowIndex colIndex = None then None
      else if v = [] \<or> matches_digits v then
        (let mx = st_matrix st;
             st1 = st\<lparr>st_matrix := mx[rowIndex := (mx ! rowIndex)[colIndex := v]]\<rparr>;
             k = cell_key rowIndex colIndex
         in case ve_matrix (st_validationErrors st) of
              None \<Rightarrow> Some st1
            | Some errs \<Rightarrow>
                if truthy_string (map_of errs k) then
                  (let matrixErrors = AList.delete k errs
                   in Some (st1\<lparr>st_validationErrors :=
                        (st_validationErrors st1)\<lparr>ve_matrix :=
                           (if length matrixErrors > 0 then Some matrixErrors else None)\<rparr>\<rparr>))
                else Some st1)
      else Some st)"

section \<open>Validation\<close>

definition cell_error :: "number \<Rightarrow> string list list \<Rightarrow> nat \<Rightarrow> nat \<Rightarrow> string option" where
  "cell_error nP mx i j =
     (let cellValue = cell_at mx i j; cellNum = parseInt_val cellValue in
      if cellValue = None \<or> cellValue = Some [] \<or> isNaN cellNum then Some ''Required''
      else if \<not> isNaN nP \<and> num_gt nP (Num 0) \<and> (num_lt cellNum (Num 1) \<or> num_gt cellNum nP)
        then Some (''Must be between 1 and '' @ number_to_string nP)
      else None)"

definition check_cell ::
  "number \<Rightarrow> string list list \<Rightarrow> nat \<Rightarrow> nat \<Rightarrow> (string \<times> string) list \<times> bool \<Rightarrow> (string \<times> string) list \<times> bool" where
  "check_cell nP mx i j acc =
     (case cell_error nP mx i j of
        Some msg \<Rightarrow> (AList.update (cell_key i j) msg (fst acc), False)
      | None \<Rightarrow> acc)"

definition check_row ::
  "nat \<Rightarrow> number \<Rightarrow> string list list \<Rightarrow> nat \<Rightarrow> (string \<times> string) list \<times> bool \<Rightarrow> (string \<times> string) list \<times> bool" where
  "check_row cols nP mx i acc = fold (check_cell nP mx i) [0 ..< cols] acc"

text \<open>
  The two nested loops over the cells. \<open>None\<close> means that they do not come to an end:
  the outer loop when \<open>numN\<close> is beyond the reach of its counter, the inner loop, in the
  first round of the outer one, when \<open>numM\<close> is.
\<close>

definition check_matrix :: "form_state \<Rightarrow> ((string \<times> string) list \<times> bool) option" where
  "check_matrix st =
     (if num_gt (numN st) (Num 0) \<and> num_gt (numM st) (Num 0) then
        (if loop_ends (numN st) \<and> loop_ends (numM st)
         then Some (fold (check_row (loop_rounds (numM st)) (numP st) (st_matrix st))
                      [0 ..< loop_rounds (numN st)] ([], True))
         else None)
      else Some ([], True))"

text \<open>
  \<open>validateForm\<close> returns \<open>isValid\<close> and stores the error object with
  \<open>setValidationErrors\<close>; \<open>None\<close> when it does not return.
\<close>

definition validation_errors :: "form_state \<Rightarrow> (string \<times> string) list \<times> bool \<Rightarrow> ValidationErrors" where
  "validation_errors st checked =
     \<lparr>ve_n = (if st_n st = [] \<or> num_le (numN st) (Num 0)
              then Some ''N must be a positive integer.'' else None),
      ve_m = (if st_m st = [] \<or> num_le (numM st) (Num 0)
              then Some ''M must be a positive integer.'' else None),
      ve_p = (if st_p st = [] \<or> num_le (numP st) (Num 0)
              then Some ''P must be a positive integer.'' else None),
      ve_matrix = (if \<not> snd checked then Some (fst checked) else None)\<rparr>"

definition validateForm :: "form_state \<Rightarrow> (bool \<times> form_state) option" where
  "validateForm st =
     (case check_matrix st of
        None \<Rightarrow> None
      | Some checked \<Rightarrow>
          (let errors = validation_errors st checked;
               isValid = (ve_n errors = None \<and> ve_m errors = None \<and> ve_p errors = None
                          \<and> snd checked)
           in Some (isValid, st\<lparr>st_validationErrors := errors\<rparr>)))"

definition isFormPotentiallyValid :: "form_state \<Rightarrow> bool" where
  "isFormPotentiallyValid st =
     (\<not> isNaN (numN st) \<and> num_gt (numN st) (Num 0)
      \<and> \<not> isNaN (numM st) \<and> num_gt (numM st) (Num 0)
      \<and> \<not> isNaN (numP st) \<and> num_gt (numP st) (Num 0)
      \<and> numN st = Num (int (length (st_matrix st))))"

section \<open>Requests and responses\<close>

record request =
  req_method :: string
  req_url :: string
  req_headers :: "(string \<times> string) list"
  req_body :: "string option"

text \<open>
  A response of the Fetch API, as far as the component reads it. The body is a stream that
  can be consumed once: \<open>resp_json\<close> is what \<open>response.json()\<close> settles with on an
  unread body (\<open>Inl\<close> the message of the \<open>SyntaxError\<close> when the text is not JSON,
  \<open>Inr\<close> the parsed value), \<open>resp_text\<close> is what \<open>response.text()\<close> resolves to on an
  unread body, and \<open>resp_reread\<close> is the message of the \<open>TypeError\<close> with which either
  method rejects once the body has been read. A thrown error is represented by its
  \<open>message\<close>.
\<close>

record response =
  resp_status :: nat
  resp_statusText :: string
  resp_text :: string
  resp_json :: "string + json"
  resp_reread :: string

definition resp_ok :: "response \<Rightarrow> bool" where
  "resp_ok r = (200 \<le> resp_status r \<and> resp_status r \<le> 299)"

text \<open>The two readers take and return the \<open>bodyUsed\<close> flag.\<close>

definition read_json :: "response \<Rightarrow> bool \<Rightarrow> (string + json) \<times> bool" where
  "read_json r bodyUsed = (if bodyUsed then (Inl (resp_reread r), True) else (resp_json r, True))"

definition read_text :: "response \<Rightarrow> bool \<Rightarrow> (string + string) \<times> bool" where
  "read_text r bodyUsed = (if bodyUsed then (Inl (resp_reread r), True) else (Inr (resp_text r), True))"

text \<open>\<open>a || b\<close> on values, and the \<open>message\<close> of \<open>new Error(v)\<close>.\<close>

definition js_or :: "json option \<Rightarrow> json option \<Rightarrow> json option" where
  "js_or a b = (if truthy a then a else b)"

definition to_string_val :: "json option \<Rightarrow> string" where
  "to_string_val v = (case v of None \<Rightarrow> ''undefined'' | Some j \<Rightarrow> to_string j)"

definition new_Error_message :: "json option \<Rightarrow> string" where
  "new_Error_message v = (case v of None \<Rightarrow> [] | Some j \<Rightarrow> to_string j)"

text \<open>\<open>err.message || fallback\<close>\<close>

definition message_or :: "string \<Rightarrow> string \<Rightarrow> string" where
  "message_or msg fallback = (if msg \<noteq> [] then msg else fallback)"

text \<open>The outcome of \<open>fetch\<close>: a rejection (\<open>Inl\<close>, the error's message) or a response.\<close>

type_synonym fetch_outcome = "string + response"

section \<open>The solve flow\<close>

record TreasureHuntInput =
  in_n :: number
  in_m :: number
  in_p :: number
  in_matrix :: "number list list"

definition inputData :: "form_state \<Rightarrow> TreasureHuntInput" where
  "inputData st =
     \<lparr>in_n = numN st, in_m = numM st, in_p = numP st,
      in_matrix = map (\<lambda>row. map (\<lambda>cell. parseInt cell) row) (st_matrix st)\<rparr>"

definition stringify_input :: "TreasureHuntInput \<Rightarrow> string" where
  "stringify_input d =
     stringify (JObj [(''n'', json_of_number (in_n d)), (''m'', json_of_number (in_m d)),
                      (''p'', json_of_number (in_p d)),
                      (''matrix'', JArr (map (\<lambda>row. JArr (map json_of_number row)) (in_matrix d)))])"

text \<open>
  \<open>handleSubmit\<close> up to its first \<open>await\<close>: the state after the synchronous part, and the
  request handed to \<open>fetch\<close> if there is one; \<open>None\<close> when \<open>validateForm\<close> does not
  return.
\<close>

definition handleSubmit_begin :: "form_state \<Rightarrow> (form_state \<times> request option) option" where
  "handleSubmit_begin st =
     (case validateForm st of
        None \<Rightarrow> None
      | Some (isValid, st1) \<Rightarrow>
          if \<not> isValid then Some (st1, None)
          else Some (st1\<lparr>st_loading := True, st_error := None, st_result := JNull\<rparr>,
                 Some \<lparr>req_method = ''POST'',
                       req_url = ''https://localhost:7219/api/TreasureHunt/solve'',
                       req_headers = [(''Content-Type'', ''application/json'')],
                       req_body = Some (stringify_input (inputData st))\<rparr>))"

text \<open>
  The inner \<open>try\<close>/\<open>catch\<close> of the failure branch: \<open>Inr\<close> the value of \<open>errorBody\<close>,
  \<open>Inl\<close> an error that leaves the \<open>catch\<close> block. The \<open>catch\<close> block reads the body with
  \<open>text()\<close> after \<open>json()\<close> has read it.
\<close>

definition solve_error_body :: "response \<Rightarrow> string + json option" where
  "solve_error_body r =
     (let (parsed, bodyUsed) = read_json r False;
          attempt =
            (case parsed of
               Inl e \<Rightarrow> Inl e
             | Inr errorData \<Rightarrow>
                 (case get_prop errorData ''message'' of
                    Inl e \<Rightarrow> Inl e
                  | Inr message \<Rightarrow>
                      (case get_prop errorData ''title'' of
                         Inl e \<Rightarrow> Inl e
                       | Inr title \<Rightarrow>
                           Inr (js_or message (js_or title (Some (JStr (stringify errorData))))))))
      in case attempt of
           Inr errorBody \<Rightarrow> Inr errorBody
         | Inl parseError \<Rightarrow>
             (case fst (read_text r bodyUsed) of
                Inl e \<Rightarrow> Inl e
              | Inr t \<Rightarrow> Inr (Some (JStr t))))"

text \<open>The body of the outer \<open>try\<close> after \<open>fetch\<close> has settled: \<open>Inl\<close> what is thrown, \<open>Inr\<close> the data.\<close>

definition solve_try :: "fetch_outcome \<Rightarrow> string + json" where
  "solve_try outcome =
     (case outcome of
        Inl e \<Rightarrow> Inl e
      | Inr r \<Rightarrow>
          if \<not> resp_ok r then
            (case solve_error_body r of
               Inl e \<Rightarrow> Inl e
             | Inr errorBody \<Rightarrow>
                 Inl (''HTTP error '' @ nat_to_string (resp_status r) @ '': '' @ to_string_val errorBody))
          else fst (read_json r False))"

text \<open>\<open>handleSubmit\<close> from the moment \<open>fetch\<close> settles: \<open>try\<close>, \<open>catch\<close>, \<open>finally\<close>.\<close>

definition handleSubmit_settle :: "fetch_outcome \<Rightarrow> form_state \<Rightarrow> form_state" where
  "handleSubmit_settle outcome st =
     (let st1 = (case solve_try outcome of
                   Inr data \<Rightarrow> st\<lparr>st_result := data\<rparr>
                 | Inl msg \<Rightarrow>
                     st\<lparr>st_error := Some (message_or msg
                           ''An error occurred while communicating with the server.'')\<rparr>)
      in st1\<lparr>st_loading := False\<rparr>)"

text \<open>The whole of \<open>handleSubmit\<close> when nothing else happens while the request is pending.\<close>

definition handleSubmit :: "fetch_outcome \<Rightarrow> form_state \<Rightarrow> (form_state \<times> request list) option" where
  "handleSubmit outcome st =
     (case handleSubmit_begin st of
        None \<Rightarrow> None
      | Some (st1, None) \<Rightarrow> Some (st1, [])
      | Some (st1, Some req) \<Rightarrow> Some (handleSubmit_settle outcome st1, [req]))"

section \<open>The lookup flow\<close>

definition handleSearch_begin :: "form_state \<Rightarrow> form_state \<times> request option" where
  "handleSearch_begin st =
     (let id = parseInt (st_searchId st) in
      if isNaN id \<or> num_le id (Num 0)
      then (st\<lparr>st_searchError := Some ''Please enter a valid positive ID number''\<rparr>, None)
      else (st\<lparr>st_searching := True, st_searchError := None, st_searchResult := JNull\<rparr>,
            Some \<lparr>req_method = ''GET'',
                  req_url = ''https://localhost:7219/api/TreasureHunt/'' @ number_to_string id,
                  req_headers = [(''Accept'', ''application/json'')],
                  req_body = None\<rparr>))"

definition search_error_message :: "response \<Rightarrow> json option" where
  "search_error_message r =
     (let errorMessage = ''Error: '' @ nat_to_string (resp_status r);
          (parsed, bodyUsed) = read_json r False;
          attempt =
            (case parsed of
               Inl e \<Rightarrow> Inl e
             | Inr errorData \<Rightarrow>
                 (case get_prop errorData ''message'' of
                    Inl e \<Rightarrow> Inl e
                  | Inr message \<Rightarrow>
                      (case get_prop errorData ''title'' of
                         Inl e \<Rightarrow> Inl e
                       | Inr title \<Rightarrow>
                           Inr (js_or message (js_or title (Some (JStr errorMessage)))))))
      in case attempt of
           Inr v \<Rightarrow> v
         | Inl e \<Rightarrow> Some (JStr (errorMessage @ '' - '' @ resp_statusText r)))"

definition search_try :: "fetch_outcome \<Rightarrow> string + json" where
  "search_try outcome =
     (case outcome of
        Inl e \<Rightarrow> Inl e
      | Inr r \<Rightarrow>
          if \<not> resp_ok r then Inl (new_Error_message (search_error_message r))
          else fst (read_json r False))"

definition handleSearch_settle :: "fetch_outcome \<Rightarrow> form_state \<Rightarrow> form_state" where
  "handleSearch_settle outcome st =
     (let st1 = (case search_try outcome of
                   Inr data \<Rightarrow> st\<lparr>st_searchResult := data\<rparr>
                 | Inl msg \<Rightarrow> st\<lparr>st_searchError := Some (message_or msg ''Failed to fetch result'')\<rparr>)
      in st1\<lparr>st_searching := False\<rparr>)"

definition handleSearch :: "fetch_outcome \<Rightarrow> form_state \<Rightarrow> form_state \<times> request list" where
  "handleSearch outcome st =
     (case handleSearch_begin st of
        (st1, None) \<Rightarrow> (st1, [])
      | (st1, Some req) \<Rightarrow> (handleSearch_settle outcome st1, [req]))"

definition setSearchId :: "string \<Rightarrow> form_state \<Rightarrow> form_state" where
  "setSearchId v st = st\<lparr>st_searchId := v\<rparr>"

section \<open>What the renderer shows\<close>

definition solve_button_disabled :: "form_state \<Rightarrow> bool" where
  "solve_button_disabled st = (st_loading st \<or> \<not> isFormPotentiallyValid st)"

definition search_button_disabled :: "form_state \<Rightarrow> bool" where
  "search_button_disabled st = (st_searching st \<or> st_searchId st = [])"

text \<open>
  The text React puts for an expression child: nothing for \<open>null\<close>, \<open>undefined\<close> and
  booleans, the digits of a number, a string as it is, the children of an array one after
  the other; an object is not a valid child (\<open>None\<close>).
\<close>

fun react_text :: "json \<Rightarrow> string option" where
  "react_text JNull = Some []"
| "react_text (JBool b) = Some []"
| "react_text (JNum i) = Some (int_to_string i)"
| "react_text (JStr s) = Some s"
| "react_text (JArr xs) = map_option concat (those (map react_text xs))"
| "react_text (JObj kvs) = None"

definition react_child :: "json option \<Rightarrow> string option" where
  "react_child v = (case v of None \<Rightarrow> Some [] | Some j \<Rightarrow> react_text j)"

datatype rendering = Hidden | Shown "string list" | RenderError

text \<open>The success alert: the two lines of text, when \<open>result && !loading\<close>.\<close>

definition result_alert :: "form_state \<Rightarrow> rendering" where
  "result_alert st =
     (if truthy (Some (st_result st)) \<and> \<not> st_loading st then
        (case (get_prop (st_result st) ''id'', get_prop (st_result st) ''minimumFuel'') of
           (Inr a, Inr b) \<Rightarrow>
             (case (react_child a, react_child b) of
                (Some x, Some y) \<Rightarrow>
                  Shown [''Calculation ID: '' @ x, ''Minimum Fuel Required: '' @ y]
              | _ \<Rightarrow> RenderError)
         | _ \<Rightarrow> RenderError)
      else Hidden)"

section \<open>The component as a transition system\<close>

text \<open>
  The form state together with the requests that are in flight. One step is one event,
  handled to its end: the handler runs on the state of the last render, and if it changed
  \<open>n\<close> or \<open>m\<close> the resize effect runs before the next event is taken. A pending request
  settles in a step of its own, at which the continuation of the handler applies its
  setters to the state of that moment.

  The component halts when the resize effect throws, which unmounts it, or when a handler
  does not return. \<open>app_halted\<close> records that; the form then keeps what the handler had
  stored. A halted component takes no further event.
\<close>

record app =
  app_form :: form_state
  solve_pending :: nat
  search_pending :: nat
  app_sent :: "request list"
  app_halted :: bool

datatype event =
    ChangeN string
  | ChangeM string
  | ChangeP string
  | ChangeCell nat nat string
  | BlurField
  | ClickSolve
  | SolveSettled fetch_outcome
  | ChangeSearchId string
  | ClickSearch
  | SearchSettled fetch_outcome

definition run_effects :: "form_state \<Rightarrow> form_state \<Rightarrow> string + form_state" where
  "run_effects rendered updated =
     (if st_n updated \<noteq> st_n rendered \<or> st_m updated \<noteq> st_m rendered
      then resize_effect updated else Inr updated)"

text \<open>
  The state after mounting: the effect runs once on the initial state, where it clears the
  empty buffer.
\<close>

definition initial_app :: app where
  "initial_app =
     \<lparr>app_form = initial_state\<lparr>st_matrix := []\<rparr>, solve_pending = 0, search_pending = 0,
      app_sent = [], app_halted = False\<rparr>"

definition with_form :: "app \<Rightarrow> form_state \<Rightarrow> app" where
  "with_form a st =
     (case run_effects (app_form a) st of
        Inr st' \<Rightarrow> a\<lparr>app_form := st'\<rparr>
      | Inl e \<Rightarrow> a\<lparr>app_form := st, app_halted := True\<rparr>)"

definition halt :: "app \<Rightarrow> app" where
  "halt a = a\<lparr>app_halted := True\<rparr>"

text \<open>
  \<open>fire e a\<close> is the state after event \<open>e\<close>, or \<open>None\<close> when the interface does not offer
  the event: a disabled button is not clicked, a cell that is not rendered is not edited,
  and only a pending request settles.
\<close>

definition fire :: "event \<Rightarrow> app \<Rightarrow> app option" where
  "fire e a =
     (let st = app_form a in
      case e of
        ChangeN v \<Rightarrow> Some (with_form a (handleNumericInputChange setN ''n'' False v st))
      | ChangeM v \<Rightarrow> Some (with_form a (handleNumericInputChange setM ''m'' False v st))
      | ChangeP v \<Rightarrow> Some (with_form a (handleNumericInputChange setP ''p'' False v st))
      | ChangeCell i j v \<Rightarrow>
          (if \<not> dims_valid st then None
           else map_option (with_form a) (handleMatrixCellChange i j v st))
      | BlurField \<Rightarrow>
          (case validateForm st of
             None \<Rightarrow> Some (halt a)
           | Some (isValid, st1) \<Rightarrow> Some (with_form a st1))
      | ClickSolve \<Rightarrow>
          (if solve_button_disabled st then None
           else (case handleSubmit_begin st of
                   None \<Rightarrow> Some (halt a)
                 | Some (st1, None) \<Rightarrow> Some (with_form a st1)
                 | Some (st1, Some req) \<Rightarrow>
                     Some ((with_form a st1)\<lparr>solve_pending := solve_pending a + 1,
                                              app_sent := app_sent a @ [req]\<rparr>)))
      | SolveSettled outcome \<Rightarrow>
          (if solve_pending a = 0 then None
           else Some ((with_form a (handleSubmit_settle outcome st))
                        \<lparr>solve_pending := solve_pending a - 1\<rparr>))
      | ChangeSearchId v \<Rightarrow> Some (with_form a (setSearchId v st))
      | ClickSearch \<Rightarrow>
          (if search_button_disabled st then None
           else (case handleSearch_begin st of
                   (st1, None) \<Rightarrow> Some (with_form a st1)
                 | (st1, Some req) \<Rightarrow>
                     Some ((with_form a st1)\<lparr>search_pending := search_pending a + 1,
                                              app_sent := app_sent a @ [req]\<rparr>)))
      | SearchSettled outcome \<Rightarrow>
          (if search_pending a = 0 then None
           else Some ((with_form a (handleSearch_settle outcome st))
                        \<lparr>search_pending := search_pending a - 1\<rparr>)))"

inductive reachable :: "app \<Rightarrow> bool" where
  reachable_init: "reachable initial_app"
| reachable_step: "reachable a \<Longrightarrow> \<not> app_halted a \<Longrightarrow> fire e a = Some a' \<Longrightarrow> reachable a'"

text \<open>Running a list of events from a state.\<close>

fun run :: "event list \<Rightarrow> app \<Rightarrow> app option" where
  "run [] a = Some a"
| "run (e # es) a =
     (if app_halted a then None
      else (case fire e a of None \<Rightarrow> None | Some a' \<Rightarrow> run es a'))"

section \<open>Example data\<close>

text \<open>
  The form of the worked example of the specification, its request and its result; the
  request of the lookup flow for an identifier; and a failure response whose body is an
  HTML page rather than JSON.
\<close>

definition example_form :: "form_state \<Rightarrow> form_state" where
  "example_form st =
     st\<lparr>st_n := ''2'', st_m := ''2'', st_p := ''3'', st_matrix := [[''1'', ''2''], [''3'', ''1'']]\<rparr>"

definition example_request :: request where
  \<open>example_request =
     \<lparr>req_method = ''POST'',
      req_url = ''https://localhost:7219/api/TreasureHunt/solve'',
      req_headers = [(''Content-Type'', ''application/json'')],
      req_body = Some ''{"n":2,"m":2,"p":3,"matrix":[[1,2],[3,1]]}''\<rparr>\<close>

definition example_result :: json where
  "example_result = JObj [(''id'', JNum 5), (''minimumFuel'', JNum 12)]"

definition lookup_request :: "number \<Rightarrow> request" where
  "lookup_request x =
     \<lparr>req_method = ''GET'',
      req_url = ''https://localhost:7219/api/TreasureHunt/'' @ number_to_string x,
      req_headers = [(''Accept'', ''application/json'')],
      req_body = None\<rparr>"

definition html_500 :: response where
  "html_500 =
     \<lparr>resp_status = 500, resp_statusText = ''Internal Server Error'',
      resp_text = ''<html>Server Error</html>'',
      resp_json = Inl ''Unexpected token < in JSON at position 0'',
      resp_reread = ''body stream already read''\<rparr>"

text \<open>
  A form whose cap is \<open>2^53\<close> and whose only cell holds the digits of \<open>2^53 + 1\<close>; a form
  whose N is \<open>2^32\<close>; and a form whose buffer has three rows of different lengths while
  N = 2 and M = 3.
\<close>

definition rounding_form :: form_state where
  "rounding_form =
     initial_state\<lparr>st_n := ''1'', st_m := ''1'', st_p := ''9007199254740992'',
                    st_matrix := [[''9007199254740993'']]\<rparr>"

definition oversized_form :: form_state where
  "oversized_form = initial_state\<lparr>st_n := ''4294967296'', st_m := ''1''\<rparr>"

definition ragged_form :: form_state where
  "ragged_form =
     initial_state\<lparr>st_n := ''2'', st_m := ''3'',
                    st_matrix := [[''1'', ''2''], [''3''], [''4'', ''5'', ''6'', ''7'']]\<rparr>"

section \<open>Conditions on cells\<close>

text \<open>
  The condition under which a cell counts as populated and in range for a cap \<open>P\<close>: it
  is inside the buffer, not empty, and parses to an integer between 1 and \<open>P\<close>. A value
  that empties a cell or puts it out of range is the empty string or a string that parses
  to a number below 1 or above \<open>P\<close>. \<open>set_cell\<close> replaces one cell of the buffer.
\<close>

definition cell_in_range :: "int \<Rightarrow> string list list \<Rightarrow> nat \<Rightarrow> nat \<Rightarrow> bool" where
  "cell_in_range P mx i j =
     (case cell_at mx i j of
        None \<Rightarrow> False
      | Some s \<Rightarrow> s \<noteq> [] \<and> (case parseInt s of Num c \<Rightarrow> 1 \<le> c \<and> c \<le> P | _ \<Rightarrow> False))"

definition empty_or_out_of_range :: "int \<Rightarrow> string \<Rightarrow> bool" where
  "empty_or_out_of_range P v =
     (v = [] \<or> (case parseInt v of
                   NaN \<Rightarrow> False
                 | Num c \<Rightarrow> c < 1 \<or> P < c
                 | PosInf \<Rightarrow> True
                 | NegInf \<Rightarrow> True))"


definition set_cell :: "nat \<Rightarrow> nat \<Rightarrow> string \<Rightarrow> form_state \<Rightarrow> form_state" where
  "set_cell i j v st = st\<lparr>st_matrix := (st_matrix st)[i := (st_matrix st ! i)[j := v]]\<rparr>"

section \<open>Invariants of the transition system\<close>


text \<open>The number of solve requests in flight is 1 while \<open>loading\<close> is set and 0 otherwise.\<close>

definition solve_serialized :: "app \<Rightarrow> bool" where
  "solve_serialized a = (solve_pending a = (if st_loading (app_form a) then 1 else 0))"

text \<open>
  Three runs from the initial state: one that fills a 1 by 1 grid and clicks Solve, one
  that enters a value into a 2 by 1 grid, clears N and enters N again, and one that enters
  \<open>2^32\<close> for N.
\<close>

definition solve_events :: "event list" where
  "solve_events = [ChangeN ''1'', ChangeM ''1'', ChangeP ''3'', ChangeCell 0 0 ''1'', ClickSolve]"


definition oversize_events :: "event list" where
  "oversize_events = [ChangeM ''1'', ChangeN ''4294967296'']"

section \<open>Evaluation helpers\<close>

lemmas parse_defs =
  parseInt_def is_whitespace_def is_digit_def digits_value_def digit_val_def round_to_double_def

lemmas digits_defs =
  number_to_string_def int_to_string_def double_to_string_def int_digits.simps digit_char_def

lemma num_compare [simp]:
  "num_gt (Num a) (Num b) = (b < a)"
  "num_lt (Num a) (Num b) = (a < b)"
  "num_le (Num a) (Num b) = (a \<le> b)"
  "num_gt PosInf (Num b)"
  "\<not> num_gt NegInf (Num b)"
  "\<not> num_gt NaN y"
  "\<not> num_le NaN y"
  "\<not> num_le PosInf (Num b)"
  "num_le NegInf (Num b)"
  "\<not> num_lt NaN y"
  "\<not> num_lt PosInf y"
  "num_lt NegInf (Num b)"
  "num_gt PosInf (Num b)"
  "num_gt x NaN = False"
  "isNaN x = (x = NaN)"
  by (auto simp: num_gt_def num_lt_def num_le_def isNaN_def)

lemma upt_0_2: "[0..<2] = [0, 1::nat]"
  by (simp add: upt_rec)

lemma rounded_parse:
  "parseInt ''9007199254740993'' = Num 9007199254740992"
  "parseInt ''9007199254740992'' = Num 9007199254740992"
  "parseInt ''1000000000000000000000'' = Num 1000000000000000000000"
  "parseInt ''4294967296'' = Num 4294967296"
  by code_simp+

lemma rounded_text:
  "number_to_string (Num 9007199254740992) = ''9007199254740992''"
  "number_to_string (Num 1000000000000000000000) = ''1e+21''"
  by code_simp+

lemma resize_effect_fields:
  assumes "resize_effect st = Inr st'"
  shows "st_n st' = st_n st" and "st_m st' = st_m st" and "st_p st' = st_p st"
    and "st_loading st' = st_loading st"
  using assms
  by (auto simp: resize_effect_def Let_def split: if_splits sum.splits)

lemma with_form_fields:
  "st_n (app_form (with_form a st)) = st_n st"
  "st_m (app_form (with_form a st)) = st_m st"
  "st_p (app_form (with_form a st)) = st_p st"
  "st_loading (app_form (with_form a st)) = st_loading st"
  "solve_pending (with_form a st) = solve_pending a"
  by (auto simp: with_form_def run_effects_def dest: resize_effect_fields split: sum.splits if_splits)

lemma with_form_same: "with_form a (app_form a) = a"
  by (simp add: with_form_def run_effects_def)

lemma example_begin:
  "handleSubmit_begin (example_form st) =
     Some ((example_form st)\<lparr>st_validationErrors := no_errors, st_loading := True,
                               st_error := None, st_result := JNull\<rparr>, Some example_request)"
  by (simp add: handleSubmit_begin_def validateForm_def validation_errors_def check_matrix_def
      check_row_def check_cell_def cell_error_def cell_at_def parseInt_val_def
      example_form_def numN_def numM_def numP_def parse_defs loop_ends_def loop_rounds_def
      no_errors_def example_request_def stringify_input_def inputData_def
      json_of_number_def quote_string_def quote_char_def int_to_string_def double_to_string_def
      int_digits.simps digit_char_def Let_def upt_0_2)

section \<open>Keystroke filtering of N, M and P\<close>

text \<open>
  C6. A change event that delivers \<open>007\<close> to the N field stores \<open>7\<close>; one that delivers
  \<open>0\<close> changes nothing, so N keeps the value it had (it stays unset if it was). The same
  holds for M and P, for the handler alone and for the whole event including the effect.
\<close>

theorem C6_numeric_input:
  "st_n (handleNumericInputChange setN ''n'' False ''007'' st) = ''7''
   \<and> handleNumericInputChange setN ''n'' False ''0'' st = st
   \<and> st_m (handleNumericInputChange setM ''m'' False ''007'' st) = ''7''
   \<and> handleNumericInputChange setM ''m'' False ''0'' st = st
   \<and> st_p (handleNumericInputChange setP ''p'' False ''007'' st) = ''7''
   \<and> handleNumericInputChange setP ''p'' False ''0'' st = st
   \<and> map_option (\<lambda>b. st_n (app_form b)) (fire (ChangeN ''007'') a) = Some ''7''
   \<and> map_option (\<lambda>b. st_m (app_form b)) (fire (ChangeM ''007'') a) = Some ''7''
   \<and> map_option (\<lambda>b. st_p (app_form b)) (fire (ChangeP ''007'') a) = Some ''7''
   \<and> fire (ChangeN ''0'') a = Some a
   \<and> fire (ChangeM ''0'') a = Some a
   \<and> fire (ChangeP ''0'') a = Some a"
  by (simp add: handleNumericInputChange_def matches_positive_def strip_leading_zeros_def
        setN_def setM_def setP_def fire_def with_form_fields with_form_same Let_def)

section \<open>The worked example of the solve flow\<close>

text \<open>
  C3. With N = 2, M = 2, P = 3 and the matrix [[1,2],[3,1]], \<open>handleSubmit\<close> returns and
  issues exactly one request, a POST whose body is the JSON text of
  \<open>{n:2, m:2, p:3, matrix:[[1,2],[3,1]]}\<close>; when the response is a success with body
  \<open>{id:5, minimumFuel:12}\<close> the result state is that object and the alert shows the two
  lines with 5 and 12.
\<close>

theorem C3_submit_example:
  assumes "resp_ok r" and "resp_json r = Inr example_result"
  shows "map_option snd (handleSubmit (Inr r) (example_form st)) = Some [example_request]
         \<and> map_option (\<lambda>x. st_result (fst x)) (handleSubmit (Inr r) (example_form st)) =
             Some example_result
         \<and> map_option (\<lambda>x. result_alert (fst x)) (handleSubmit (Inr r) (example_form st)) =
             Some (Shown [''Calculation ID: 5'', ''Minimum Fuel Required: 12''])"
  using assms
  by (simp add: handleSubmit_def example_begin handleSubmit_settle_def solve_try_def read_json_def
      result_alert_def truthy_def example_result_def get_prop_def react_child_def
      int_to_string_def double_to_string_def int_digits.simps digit_char_def)

theorem C3_submit_example_witness:
  "map_option snd (handleSubmit
          (Inr \<lparr>resp_status = 200, resp_statusText = ''OK'', resp_text = [],
                resp_json = Inr example_result, resp_reread = []\<rparr>)
          (example_form initial_state)) = Some [example_request]
   \<and> map_option (\<lambda>x. result_alert (fst x)) (handleSubmit
          (Inr \<lparr>resp_status = 200, resp_statusText = ''OK'', resp_text = [],
                resp_json = Inr example_result, resp_reread = []\<rparr>)
          (example_form initial_state)) =
       Some (Shown [''Calculation ID: 5'', ''Minimum Fuel Required: 12''])"
  using C3_submit_example
          [of "\<lparr>resp_status = 200, resp_statusText = ''OK'', resp_text = [],
                resp_json = Inr example_result, resp_reread = []\<rparr>" initial_state]
  by (simp add: resp_ok_def)

section \<open>The lookup flow\<close>

text \<open>
  C4. When the identifier parses to a positive number and the lookup answers with a status
  outside 200..299 and a JSON object whose \<open>message\<close> is \<open>not found\<close>, the flow ends with
  \<open>searchError\<close> equal to \<open>not found\<close>, \<open>searchResult\<close> null and \<open>searching\<close> false.
\<close>

theorem C4_lookup_not_found:
  assumes "(\<exists>k. parseInt (st_searchId st) = Num k \<and> 0 < k) \<or> parseInt (st_searchId st) = PosInf"
    and "\<not> resp_ok r"
    and "resp_json r = Inr (JObj kvs)" and "map_of kvs ''message'' = Some (JStr ''not found'')"
  shows "st_searchError (fst (handleSearch (Inr r) st)) = Some ''not found''
         \<and> st_searchResult (fst (handleSearch (Inr r) st)) = JNull
         \<and> \<not> st_searching (fst (handleSearch (Inr r) st))"
  using assms
  by (auto simp: handleSearch_def handleSearch_begin_def handleSearch_settle_def search_try_def
      search_error_message_def read_json_def get_prop_def js_or_def truthy_def
      new_Error_message_def message_or_def Let_def)

theorem C4_lookup_not_found_witness:
  "st_searchError (fst (handleSearch
      (Inr \<lparr>resp_status = 404, resp_statusText = ''Not Found'', resp_text = [],
            resp_json = Inr (JObj [(''message'', JStr ''not found'')]), resp_reread = []\<rparr>)
      (initial_state\<lparr>st_searchId := ''5''\<rparr>))) = Some ''not found''
   \<and> st_searchResult (fst (handleSearch
      (Inr \<lparr>resp_status = 404, resp_statusText = ''Not Found'', resp_text = [],
            resp_json = Inr (JObj [(''message'', JStr ''not found'')]), resp_reread = []\<rparr>)
      (initial_state\<lparr>st_searchId := ''5''\<rparr>))) = JNull"
  using C4_lookup_not_found
          [of "initial_state\<lparr>st_searchId := ''5''\<rparr>"
              "\<lparr>resp_status = 404, resp_statusText = ''Not Found'', resp_text = [],
                resp_json = Inr (JObj [(''message'', JStr ''not found'')]), resp_reread = []\<rparr>"
              "[(''message'', JStr ''not found'')]"]
  by (simp add: parse_defs resp_ok_def)



lemma lookup_request_below_2_53:
  "0 < k \<Longrightarrow> k < 2 ^ 53 \<Longrightarrow>
     req_url (lookup_request (Num k)) = ''https://localhost:7219/api/TreasureHunt/'' @ int_digits k"
  by (simp add: lookup_request_def number_to_string_def int_to_string_def double_to_string_def)

text \<open>
  C10. The Result ID field stores the delivered string as it is, and whenever that string
  parses to a positive integer \<open>k\<close>, \<open>handleSearch\<close> issues one GET to the lookup endpoint
  followed by \<open>k\<close> as a template literal writes it. The strings \<open>3.9\<close>, \<open>3abc\<close> and
  \<open>007\<close> parse to 3, 3 and 7 and give the paths ending in 3, 3 and 7; the digits of
  \<open>2^53 + 1\<close> parse to \<open>2^53\<close> and give its digits; the digits of \<open>10^21\<close> give \<open>1e+21\<close>.
\<close>

theorem C10_lookup_request:
  "st_searchId (setSearchId v st) = v
   \<and> (parseInt (st_searchId st) = Num k \<and> 0 < k \<longrightarrow>
        snd (handleSearch_begin st) = Some (lookup_request (Num k))
        \<and> snd (handleSearch outcome st) = [lookup_request (Num k)])
   \<and> parseInt ''3.9'' = Num 3 \<and> parseInt ''3abc'' = Num 3 \<and> parseInt ''007'' = Num 7
   \<and> req_url (lookup_request (Num 3)) = ''https://localhost:7219/api/TreasureHunt/3''
   \<and> req_url (lookup_request (Num 7)) = ''https://localhost:7219/api/TreasureHunt/7''
   \<and> map req_url (snd (handleSearch outcome (st\<lparr>st_searchId := ''9007199254740993''\<rparr>))) =
       [''https://localhost:7219/api/TreasureHunt/9007199254740992'']
   \<and> map req_url (snd (handleSearch outcome (st\<lparr>st_searchId := ''1000000000000000000000''\<rparr>))) =
       [''https://localhost:7219/api/TreasureHunt/1e+21'']"
proof -
  have general: "parseInt (st_searchId s) = Num j \<and> 0 < j \<longrightarrow>
        snd (handleSearch_begin s) = Some (lookup_request (Num j))
        \<and> snd (handleSearch outcome s) = [lookup_request (Num j)]" for s j
    by (auto simp: handleSearch_def handleSearch_begin_def Let_def lookup_request_def)
  have small: "parseInt ''3.9'' = Num 3" "parseInt ''3abc'' = Num 3" "parseInt ''007'' = Num 7"
    by (simp_all add: parse_defs)
  have urls: "req_url (lookup_request (Num 3)) = ''https://localhost:7219/api/TreasureHunt/3''"
    "req_url (lookup_request (Num 7)) = ''https://localhost:7219/api/TreasureHunt/7''"
    by (simp_all add: lookup_request_def digits_defs)
  have big: "map req_url (snd (handleSearch outcome (st\<lparr>st_searchId := ''9007199254740993''\<rparr>))) =
       [''https://localhost:7219/api/TreasureHunt/9007199254740992'']"
    "map req_url (snd (handleSearch outcome (st\<lparr>st_searchId := ''1000000000000000000000''\<rparr>))) =
       [''https://localhost:7219/api/TreasureHunt/1e+21'']"
    using general [of "st\<lparr>st_searchId := ''9007199254740993''\<rparr>" 9007199254740992]
      general [of "st\<lparr>st_searchId := ''1000000000000000000000''\<rparr>" 1000000000000000000000]
    by (simp_all add: rounded_parse rounded_text lookup_request_def)
  show ?thesis
    using general [of st k] small urls big by (simp add: setSearchId_def)
qed

theorem C10_lookup_request_witness:
  "snd (handleSearch (Inr html_500) (initial_state\<lparr>st_searchId := ''3.9''\<rparr>)) =
     [\<lparr>req_method = ''GET'', req_url = ''https://localhost:7219/api/TreasureHunt/3'',
       req_headers = [(''Accept'', ''application/json'')], req_body = None\<rparr>]"
  using C10_lookup_request
          [of "''3.9''" "initial_state\<lparr>st_searchId := ''3.9''\<rparr>" 3 "Inr html_500"]
  by (simp add: parse_defs lookup_request_def digits_defs)

section \<open>Failure responses whose body is not JSON\<close>

lemma unparsable_error_body:
  assumes "\<not> resp_ok r" and "resp_json r = Inl e"
  shows "st_error (handleSubmit_settle (Inr r) st) =
           Some (message_or (resp_reread r) ''An error occurred while communicating with the server.'')"
    and "st_searchError (handleSearch_settle (Inr r) st) =
           Some (''Error: '' @ nat_to_string (resp_status r) @ '' - '' @ resp_statusText r)"
  using assms
  by (simp_all add: handleSubmit_settle_def solve_try_def solve_error_body_def read_json_def
      read_text_def handleSearch_settle_def search_try_def search_error_message_def
      new_Error_message_def message_or_def Let_def)

lemma failure_response_sets_error:
  assumes "\<not> resp_ok r"
  shows "st_error (handleSubmit_settle (Inr r) st) \<noteq> None"
    and "st_searchError (handleSearch_settle (Inr r) st) \<noteq> None"
  using assms
  by (simp_all add: handleSubmit_settle_def solve_try_def handleSearch_settle_def search_try_def
      Let_def split: sum.split)

text \<open>
  C5. For a response with status 500 whose body is an HTML page, the lookup flow ends with
  the status-based message. The solve flow ends with an error string as well, but it is the
  message of the \<open>TypeError\<close> raised by the second read of the body, not the text
  \<open>HTTP error 500:\<close> followed by the raw body that the fallback was written to produce.
\<close>

theorem C5_html_error_body:
  "map_option (\<lambda>x. st_error (fst x)) (handleSubmit (Inr html_500) (example_form initial_state)) =
     Some (Some ''body stream already read'')
   \<and> map_option (\<lambda>x. st_error (fst x)) (handleSubmit (Inr html_500) (example_form initial_state)) \<noteq>
     Some (Some (''HTTP error 500: '' @ resp_text html_500))
   \<and> st_searchError (handleSearch_settle (Inr html_500) initial_state) =
     Some ''Error: 500 - Internal Server Error''"
  using unparsable_error_body
          [of html_500 "''Unexpected token < in JSON at position 0''"]
  by (simp add: html_500_def resp_ok_def message_or_def handleSubmit_def example_begin
       nat_to_string.simps digit_char_def)

section \<open>Validation of a fully populated grid\<close>

lemma digit_char_inj: "a < 10 \<Longrightarrow> b < 10 \<Longrightarrow> digit_char a = digit_char b \<Longrightarrow> a = b"
  by (simp add: digit_char_def nth_eq_iff_index_eq)

lemma digit_char_no_dash: "d < 10 \<Longrightarrow> digit_char d \<noteq> CHR ''-''"
proof -
  assume "d < 10"
  then have "digit_char d \<in> set ''0123456789''"
    unfolding digit_char_def by (intro nth_mem) simp
  then show ?thesis by auto
qed

lemma nat_to_string_nonempty: "nat_to_string k \<noteq> []"
  by (subst nat_to_string.simps) simp

lemma nat_to_string_no_dash: "CHR ''-'' \<notin> set (nat_to_string k)"
proof (induction k rule: nat_to_string.induct)
  case (1 k)
  show ?case
  proof (cases "k < 10")
    case True
    then show ?thesis
      using digit_char_no_dash [of k] by (subst nat_to_string.simps) auto
  next
    case False
    then show ?thesis
      using 1 digit_char_no_dash [of "k mod 10"] by (subst nat_to_string.simps) auto
  qed
qed

lemma nat_to_string_inj: "nat_to_string a = nat_to_string b \<Longrightarrow> a = b"
proof (induction a arbitrary: b rule: nat_to_string.induct)
  case (1 k)
  show ?case
  proof (cases "k < 10")
    case small: True
    show ?thesis
    proof (cases "b < 10")
      case True
      with small 1(2) show ?thesis
        by (simp add: nat_to_string.simps [of k] nat_to_string.simps [of b] digit_char_inj)
    next
      case False
      with small 1(2) show ?thesis
        using nat_to_string_nonempty [of "b div 10"]
        by (simp add: nat_to_string.simps [of k] nat_to_string.simps [of b])
    qed
  next
    case big: False
    show ?thesis
    proof (cases "b < 10")
      case True
      with big 1(2) show ?thesis
        using nat_to_string_nonempty [of "k div 10"]
        by (simp add: nat_to_string.simps [of k] nat_to_string.simps [of b])
    next
      case False
      with big 1(2) have eq: "nat_to_string (k div 10) = nat_to_string (b div 10)"
        and d: "digit_char (k mod 10) = digit_char (b mod 10)"
        by (simp_all add: nat_to_string.simps [of k] nat_to_string.simps [of b])
      from 1(1) [OF big eq] have "k div 10 = b div 10" .
      moreover from d have "k mod 10 = b mod 10"
        by (intro digit_char_inj) simp_all
      ultimately show ?thesis
        by (metis div_mult_mod_eq)
    qed
  qed
qed

lemma split_at_separator:
  "sep \<notin> set xs \<Longrightarrow>
     takeWhile (\<lambda>c. c \<noteq> sep) (xs @ sep # ys) = xs
     \<and> dropWhile (\<lambda>c. c \<noteq> sep) (xs @ sep # ys) = sep # ys"
  by (induction xs) auto

lemma cell_key_inj: "cell_key i j = cell_key i' j' \<Longrightarrow> i = i' \<and> j = j'"
proof -
  assume eq: "cell_key i j = cell_key i' j'"
  have tw: "\<And>a b. takeWhile (\<lambda>c. c \<noteq> CHR ''-'') (cell_key a b) = nat_to_string a"
    using split_at_separator [OF nat_to_string_no_dash] by (simp add: cell_key_def)
  have dw: "\<And>a b. dropWhile (\<lambda>c. c \<noteq> CHR ''-'') (cell_key a b) = CHR ''-'' # nat_to_string b"
    using split_at_separator [OF nat_to_string_no_dash] by (simp add: cell_key_def)
  from eq tw [of i j] tw [of i' j'] have "nat_to_string i = nat_to_string i'" by simp
  moreover from eq dw [of i j] dw [of i' j'] have "nat_to_string j = nat_to_string j'" by simp
  ultimately show ?thesis by (simp add: nat_to_string_inj)
qed

lemma check_cells_none:
  "(\<forall>j \<in> set js. cell_error nP mx i j = None) \<Longrightarrow> fold (check_cell nP mx i) js acc = acc"
  by (induction js arbitrary: acc) (simp_all add: check_cell_def)

lemma check_row_none:
  "(\<forall>j < cols. cell_error nP mx i j = None) \<Longrightarrow> check_row cols nP mx i acc = acc"
  by (simp add: check_row_def check_cells_none)

lemma check_rows_none:
  "(\<forall>i \<in> set rs. \<forall>j < cols. cell_error nP mx i j = None) \<Longrightarrow>
     fold (check_row cols nP mx) rs acc = acc"
  by (induction rs arbitrary: acc) (simp_all add: check_row_none)

lemma upt_split_at: "k < n \<Longrightarrow> [0..<n] = [0..<k] @ k # [Suc k..<n]"
  by (metis le_add1 less_imp_add_positive upt_add_eq_append upt_conv_Cons plus_nat.add_0 less_eq_nat.simps(1) upt_rec)

lemma check_row_single:
  assumes "j < cols" and "cell_error nP mx i j = Some msg"
    and "\<forall>j' < cols. j' \<noteq> j \<longrightarrow> cell_error nP mx i j' = None"
  shows "check_row cols nP mx i acc = (AList.update (cell_key i j) msg (fst acc), False)"
proof -
  have before: "fold (check_cell nP mx i) [0..<j] acc = acc"
    using assms by (intro check_cells_none) auto
  have after: "\<And>acc'. fold (check_cell nP mx i) [Suc j..<cols] acc' = acc'"
    using assms by (intro check_cells_none) auto
  show ?thesis
    using assms(2) by (simp add: check_row_def upt_split_at [OF assms(1)] before after check_cell_def)
qed

lemma check_rows_single:
  assumes "i < rows" and "j < cols" and "cell_error nP mx i j = Some msg"
    and "\<forall>i' < rows. \<forall>j' < cols. (i', j') \<noteq> (i, j) \<longrightarrow> cell_error nP mx i' j' = None"
  shows "fold (check_row cols nP mx) [0..<rows] acc = (AList.update (cell_key i j) msg (fst acc), False)"
proof -
  have before: "fold (check_row cols nP mx) [0..<i] acc = acc"
    using assms by (intro check_rows_none) auto
  have after: "\<And>acc'. fold (check_row cols nP mx) [Suc i..<rows] acc' = acc'"
    using assms by (intro check_rows_none) auto
  have row: "check_row cols nP mx i acc = (AList.update (cell_key i j) msg (fst acc), False)"
    using assms by (intro check_row_single) auto
  show ?thesis
    by (simp add: upt_split_at [OF assms(1)] before after row)
qed

lemma cell_error_in_range:
  "cell_in_range P mx i j \<Longrightarrow> 0 < P \<Longrightarrow> cell_error (Num P) mx i j = None"
  by (auto simp: cell_in_range_def cell_error_def parseInt_val_def Let_def
      split: option.splits number.splits)

lemma cell_error_bad_value:
  assumes "cell_at mx i j = Some v" and "empty_or_out_of_range P v" and "0 < P"
  shows "cell_error (Num P) mx i j =
           Some (if v = [] then ''Required''
                 else ''Must be between 1 and '' @ number_to_string (Num P))"
  using assms
  by (auto simp: empty_or_out_of_range_def cell_error_def parseInt_val_def num_gt_def Let_def
      split: number.splits)

lemma cell_at_update:
  assumes "cell_at mx i j \<noteq> None"
  shows "cell_at (mx[i := (mx ! i)[j := v]]) i' j' =
           (if i' = i \<and> j' = j then Some v else cell_at mx i' j')"
  using assms by (auto simp: cell_at_def nth_list_update split: if_splits)

text \<open>Dimensions whose last cell exists are array lengths, so the loop counters reach them.\<close>

lemma dims_in_reach:
  assumes "0 < N" and "0 < M" and "\<forall>i < nat N. \<forall>j < nat M. cell_at mx i j \<noteq> None"
  shows "N \<le> 4294967295" and "M \<le> 4294967295"
proof -
  have "cell_at mx (nat N - 1) (nat M - 1) \<noteq> None"
    using assms by simp
  then have "int (nat N - 1) < 4294967295 \<and> int (nat M - 1) < 4294967295"
    by (auto simp: cell_at_def split: if_splits)
  then show "N \<le> 4294967295" and "M \<le> 4294967295"
    using assms(1,2) by linarith+
qed

lemma validateForm_unfold:
  assumes "parseInt (st_n st) = Num N" and "0 < N" and "N \<le> 4294967295"
    and "parseInt (st_m st) = Num M" and "0 < M" and "M \<le> 4294967295"
    and "parseInt (st_p st) = Num P" and "0 < P"
  shows "validateForm st =
           (let r = fold (check_row (nat M) (Num P) (st_matrix st)) [0..<nat N] ([], True)
            in Some (snd r, st\<lparr>st_validationErrors :=
                  no_errors\<lparr>ve_matrix := (if \<not> snd r then Some (fst r) else None)\<rparr>\<rparr>))"
proof -
  have "st_n st \<noteq> []" "st_m st \<noteq> []" "st_p st \<noteq> []"
    using assms by (auto simp: parseInt_def)
  moreover have "loop_ends (Num N)" "loop_ends (Num M)"
    using assms(3,6) by (simp_all add: loop_ends_def)
  ultimately show ?thesis
    using assms
    by (simp add: validateForm_def validation_errors_def check_matrix_def numN_def numM_def
        numP_def loop_rounds_def no_errors_def Let_def)
qed

text \<open>
  C1. When N, M and P parse to positive integers and every cell inside the N by M bounds is
  a non-empty string that parses to an integer between 1 and P, \<open>validateForm\<close> returns
  true and stores an empty error object. When one cell \<open>(i, j)\<close> of such a state is
  replaced by the empty string or by a string that parses to a number outside 1..P,
  \<open>validateForm\<close> returns false and the stored error object has no entry for N, M or P
  and a matrix entry for the key of \<open>(i, j)\<close> only, which is the key of no other cell.
  Parsing is that of the program: the digits of \<open>2^53 + 1\<close> parse to \<open>2^53\<close>.
\<close>

theorem C1_validateForm:
  assumes "parseInt (st_n st) = Num N" and "0 < N"
    and "parseInt (st_m st) = Num M" and "0 < M"
    and "parseInt (st_p st) = Num P" and "0 < P"
    and "\<forall>i < nat N. \<forall>j < nat M. cell_in_range P (st_matrix st) i j"
  shows "validateForm st = Some (True, st\<lparr>st_validationErrors := no_errors\<rparr>)
     \<and> (\<forall>i < nat N. \<forall>j < nat M. \<forall>v. empty_or_out_of_range P v \<longrightarrow>
          (let msg = (if v = [] then ''Required''
                      else ''Must be between 1 and '' @ number_to_string (Num P))
           in validateForm (set_cell i j v st) =
                Some (False, (set_cell i j v st)\<lparr>st_validationErrors :=
                           no_errors\<lparr>ve_matrix := Some [(cell_key i j, msg)]\<rparr>\<rparr>)
              \<and> (\<forall>i' j'. map_of [(cell_key i j, msg)] (cell_key i' j') =
                           (if i' = i \<and> j' = j then Some msg else None))))"
proof (intro conjI allI impI)
  have present: "\<forall>i < nat N. \<forall>j < nat M. cell_at (st_matrix st) i j \<noteq> None"
    using assms(7) by (auto simp: cell_in_range_def split: option.splits)
  note reach = dims_in_reach [OF assms(2,4) present]
  have "fold (check_row (nat M) (Num P) (st_matrix st)) [0..<nat N] ([], True) = ([], True)"
    using assms(6,7) by (intro check_rows_none) (simp add: cell_error_in_range)
  then show "validateForm st = Some (True, st\<lparr>st_validationErrors := no_errors\<rparr>)"
    by (simp add: validateForm_unfold [OF assms(1,2) reach(1) assms(3,4) reach(2) assms(5,6)]
        no_errors_def)
  fix i j v
  assume i: "i < nat N" and j: "j < nat M" and v: "empty_or_out_of_range P v"
  define msg where "msg = (if v = [] then ''Required''
                           else ''Must be between 1 and '' @ number_to_string (Num P))"
  define st' where "st' = set_cell i j v st"
  have inside: "cell_at (st_matrix st) i j \<noteq> None"
    using present i j by simp
  have at: "\<And>i' j'. cell_at (st_matrix st') i' j' =
              (if i' = i \<and> j' = j then Some v else cell_at (st_matrix st) i' j')"
    by (simp add: st'_def set_cell_def cell_at_update [OF inside])
  have bad: "cell_error (Num P) (st_matrix st') i j = Some msg"
    unfolding msg_def using v assms(6) by (intro cell_error_bad_value) (simp_all add: at)
  have others: "\<forall>i' < nat N. \<forall>j' < nat M. (i', j') \<noteq> (i, j) \<longrightarrow>
                  cell_error (Num P) (st_matrix st') i' j' = None"
  proof (intro allI impI)
    fix i' j'
    assume "i' < nat N" "j' < nat M" "(i', j') \<noteq> (i, j)"
    then have "cell_in_range P (st_matrix st') i' j'"
      using assms(7) by (auto simp: cell_in_range_def at)
    then show "cell_error (Num P) (st_matrix st') i' j' = None"
      using assms(6) by (rule cell_error_in_range)
  qed
  have "fold (check_row (nat M) (Num P) (st_matrix st')) [0..<nat N] ([], True) =
          ([(cell_key i j, msg)], False)"
    using check_rows_single [OF i j bad others, of "([], True)"] by simp
  moreover have "parseInt (st_n st') = Num N" "parseInt (st_m st') = Num M"
      "parseInt (st_p st') = Num P"
    using assms(1,3,5) by (simp_all add: st'_def set_cell_def)
  ultimately have run: "validateForm st' =
      Some (False, st'\<lparr>st_validationErrors := no_errors\<lparr>ve_matrix := Some [(cell_key i j, msg)]\<rparr>\<rparr>)"
    using assms(2,4,6) reach by (simp add: validateForm_unfold)
  have keys: "\<forall>i' j'. map_of [(cell_key i j, msg)] (cell_key i' j') =
                (if i' = i \<and> j' = j then Some msg else None)"
    using cell_key_inj by auto
  show "let msg = (if v = [] then ''Required''
                   else ''Must be between 1 and '' @ number_to_string (Num P))
        in validateForm (set_cell i j v st) =
             Some (False, (set_cell i j v st)\<lparr>st_validationErrors :=
                        no_errors\<lparr>ve_matrix := Some [(cell_key i j, msg)]\<rparr>\<rparr>)
           \<and> (\<forall>i' j'. map_of [(cell_key i j, msg)] (cell_key i' j') =
                        (if i' = i \<and> j' = j then Some msg else None))"
    using run keys unfolding msg_def st'_def Let_def by blast
qed

lemma example_cells: "\<forall>i < nat 2. \<forall>j < nat 2. cell_in_range 3 (st_matrix (example_form st)) i j"
  by (simp add: example_form_def cell_in_range_def cell_at_def parse_defs less_Suc_eq numeral_2_eq_2)

lemma rounding_cells:
  "\<forall>i < nat 1. \<forall>j < nat 1. cell_in_range 9007199254740992 (st_matrix rounding_form) i j"
  by (simp add: rounding_form_def cell_in_range_def cell_at_def rounded_parse)

theorem C1_validateForm_witness:
  "validateForm (example_form initial_state) =
     Some (True, (example_form initial_state)\<lparr>st_validationErrors := no_errors\<rparr>)
   \<and> validateForm (set_cell 1 0 [] (example_form initial_state)) =
       Some (False, (set_cell 1 0 [] (example_form initial_state))\<lparr>st_validationErrors :=
                  no_errors\<lparr>ve_matrix := Some [(''1-0'', ''Required'')]\<rparr>\<rparr>)
   \<and> validateForm (set_cell 0 1 ''9'' (example_form initial_state)) =
       Some (False, (set_cell 0 1 ''9'' (example_form initial_state))\<lparr>st_validationErrors :=
                  no_errors\<lparr>ve_matrix := Some [(''0-1'', ''Must be between 1 and 3'')]\<rparr>\<rparr>)
   \<and> validateForm rounding_form = Some (True, rounding_form\<lparr>st_validationErrors := no_errors\<rparr>)"
proof -
  have n: "parseInt (st_n (example_form initial_state)) = Num 2"
    and m: "parseInt (st_m (example_form initial_state)) = Num 2"
    and p: "parseInt (st_p (example_form initial_state)) = Num 3"
    by (simp_all add: example_form_def parse_defs)
  note t = C1_validateForm [OF n _ m _ p _ example_cells, simplified]
  have e1: "empty_or_out_of_range 3 []" and e2: "empty_or_out_of_range 3 ''9''"
    by (simp_all add: empty_or_out_of_range_def parse_defs)
  from t have a: "validateForm (example_form initial_state) =
     Some (True, (example_form initial_state)\<lparr>st_validationErrors := no_errors\<rparr>)" by simp
  from t e1 have b: "validateForm (set_cell 1 0 [] (example_form initial_state)) =
       Some (False, (set_cell 1 0 [] (example_form initial_state))\<lparr>st_validationErrors :=
                  no_errors\<lparr>ve_matrix := Some [(cell_key 1 0, ''Required'')]\<rparr>\<rparr>)"
    by (simp add: Let_def)
  from t e2 have c: "validateForm (set_cell 0 1 ''9'' (example_form initial_state)) =
       Some (False, (set_cell 0 1 ''9'' (example_form initial_state))\<lparr>st_validationErrors :=
                  no_errors\<lparr>ve_matrix :=
                    Some [(cell_key 0 1, ''Must be between 1 and '' @ number_to_string (Num 3))]\<rparr>\<rparr>)"
    by (simp add: Let_def)
  have rn: "parseInt (st_n rounding_form) = Num 1" and rm: "parseInt (st_m rounding_form) = Num 1"
    by (simp_all add: rounding_form_def parse_defs)
  have rp: "parseInt (st_p rounding_form) = Num 9007199254740992"
    by (simp add: rounding_form_def rounded_parse)
  from C1_validateForm [OF rn _ rm _ rp _ rounding_cells]
  have d: "validateForm rounding_form = Some (True, rounding_form\<lparr>st_validationErrors := no_errors\<rparr>)"
    by simp
  have k: "cell_key (Suc 0) 0 = ''1-0''" "cell_key 0 (Suc 0) = ''0-1''"
    "number_to_string (Num 3) = ''3''"
    by (simp_all add: cell_key_def digits_defs nat_to_string.simps)
  show ?thesis using a b c d by (simp add: k)
qed

section \<open>The resize effect preserves the overlap\<close>

lemma copy_cell_length [simp]: "length (copy_cell prev i j nm) = length nm"
  by (simp add: copy_cell_def split: option.split)

lemma copy_cell_row_length [simp]:
  "a < length nm \<Longrightarrow> length (copy_cell prev i j nm ! a) = length (nm ! a)"
  by (cases "a = i") (simp_all add: copy_cell_def split: option.split)

lemma copy_cell_nth:
  assumes "a < length nm" and "b < length (nm ! a)"
  shows "copy_cell prev i j nm ! a ! b =
           (if a = i \<and> b = j \<and> cell_at prev i j \<noteq> None then the (cell_at prev i j) else nm ! a ! b)"
  using assms
  by (cases "a = i"; cases "b = j") (auto simp: copy_cell_def split: option.split)

lemma copy_cells_length [simp]: "length (fold (copy_cell prev i) [0..<k] nm) = length nm"
  by (induction k) simp_all

lemma copy_cells_row_length [simp]:
  "a < length nm \<Longrightarrow> length (fold (copy_cell prev i) [0..<k] nm ! a) = length (nm ! a)"
  by (induction k) simp_all

lemma copy_cells_nth:
  assumes "a < length nm" and "b < length (nm ! a)"
  shows "fold (copy_cell prev i) [0..<k] nm ! a ! b =
           (if a = i \<and> b < k \<and> cell_at prev i b \<noteq> None then the (cell_at prev i b) else nm ! a ! b)"
  using assms
  by (induction k) (auto simp: copy_cell_nth less_Suc_eq)

lemma copy_row_length [simp]: "length (copy_row cols prev i nm) = length nm"
  by (simp add: copy_row_def)

lemma copy_row_row_length [simp]:
  "a < length nm \<Longrightarrow> length (copy_row cols prev i nm ! a) = length (nm ! a)"
  by (simp add: copy_row_def)

lemma copy_row_nth:
  assumes "a < length nm" and "b < length (nm ! a)" and "length (nm ! a) = cols"
  shows "copy_row cols prev i nm ! a ! b =
           (if a = i \<and> cell_at prev i b \<noteq> None then the (cell_at prev i b) else nm ! a ! b)"
  using assms
  by (auto simp: copy_row_def copy_cells_nth cell_at_def row_length_def)

lemma copy_rows_length [simp]: "length (fold (copy_row cols prev) [0..<r] nm) = length nm"
  by (induction r) simp_all

lemma copy_rows_row_length [simp]:
  "a < length nm \<Longrightarrow> length (fold (copy_row cols prev) [0..<r] nm ! a) = length (nm ! a)"
  by (induction r) simp_all

lemma copy_rows_nth:
  assumes "a < length nm" and "b < length (nm ! a)" and "length (nm ! a) = cols"
  shows "fold (copy_row cols prev) [0..<r] nm ! a ! b =
           (if a < r \<and> cell_at prev a b \<noteq> None then the (cell_at prev a b) else nm ! a ! b)"
  using assms
  by (induction r) (auto simp: copy_row_nth less_Suc_eq)

lemma copied_grid:
  fixes prev :: "string list list"
  defines "g \<equiv> \<lambda>rows cols. fold (copy_row cols prev) [0 ..< min rows (length prev)]
                                (replicate rows (replicate cols []))"
  shows "length (g rows cols) = rows"
    and "a < rows \<Longrightarrow> length (g rows cols ! a) = cols"
    and "a < rows \<Longrightarrow> b < cols \<Longrightarrow>
           g rows cols ! a ! b = (case cell_at prev a b of Some v \<Rightarrow> v | None \<Rightarrow> [])"
  unfolding g_def
  by (auto simp: copy_rows_nth cell_at_def split: option.split if_splits)

lemma resize_matrix_valid:
  assumes "0 < r" and "r \<le> 4294967295" and "0 < c" and "c \<le> 4294967295"
  shows "resize_matrix (Num r) (Num c) prev =
           Inr (fold (copy_row (nat c) prev) [0 ..< min (nat r) (length prev)]
                  (replicate (nat r) (replicate (nat c) [])))"
  using assms by (simp add: resize_matrix_def Array_fill_def map_replicate_const)

lemma resize_matrix_too_large:
  assumes "0 < r" and "4294967295 < r \<or> 4294967295 < c"
  shows "resize_matrix (Num r) (Num c) prev = Inl ''Invalid array length''"
  using assms by (auto simp: resize_matrix_def Array_fill_def)


text \<open>
  C2, with the bound that array lengths have. When N and M parse to positive integers of at
  most \<open>2^32 - 1\<close>, the resize effect leaves a buffer of exactly N rows of M cells each; a
  cell whose position exists in the previous buffer holds the previous string there, and
  every other cell is the empty string.
\<close>

theorem C2_resize_preserves:
  assumes "parseInt (st_n st) = Num N" and "0 < N" and "N \<le> 4294967295"
    and "parseInt (st_m st) = Num M" and "0 < M" and "M \<le> 4294967295"
  shows "\<exists>st'. resize_effect st = Inr st'
     \<and> length (st_matrix st') = nat N
     \<and> (\<forall>i < nat N. length (st_matrix st' ! i) = nat M)
     \<and> (\<forall>i < nat N. \<forall>j < nat M. st_matrix st' ! i ! j =
          (if i < length (st_matrix st) \<and> j < length (st_matrix st ! i)
           then st_matrix st ! i ! j else []))"
proof -
  define g where "g = fold (copy_row (nat M) (st_matrix st)) [0 ..< min (nat N) (length (st_matrix st))]
                        (replicate (nat N) (replicate (nat M) []))"
  have valid: "dims_valid st"
    using assms by (simp add: dims_valid_def numN_def numM_def)
  have "resize_matrix (numN st) (numM st) (st_matrix st) = Inr g"
    using assms by (simp add: numN_def numM_def g_def resize_matrix_valid)
  then have "\<exists>st'. resize_effect st = Inr st' \<and> st_matrix st' = g"
    using valid
    by (cases "ve_matrix (st_validationErrors st)") (simp_all add: resize_effect_def Let_def)
  then obtain st' where eff: "resize_effect st = Inr st'" and mx: "st_matrix st' = g"
    by blast
  have "length g = nat N"
    and "\<forall>i < nat N. length (g ! i) = nat M"
    and "\<forall>i < nat N. \<forall>j < nat M. g ! i ! j =
           (case cell_at (st_matrix st) i j of Some v \<Rightarrow> v | None \<Rightarrow> [])"
    unfolding g_def by (simp_all add: copied_grid)
  moreover have "cell_at (st_matrix st) i j =
      (if i < length (st_matrix st) \<and> j < length (st_matrix st ! i)
       then Some (st_matrix st ! i ! j) else None)" if "i < nat N" and "j < nat M" for i j
    using that assms(3,6) by (auto simp: cell_at_def)
  ultimately show ?thesis
    using eff mx by auto
qed

theorem C2_resize_preserves_witness:
  "\<exists>st'. resize_effect ragged_form = Inr st'
     \<and> length (st_matrix st') = 2
     \<and> st_matrix st' ! 0 ! 1 = ''2''
     \<and> st_matrix st' ! 1 ! 0 = ''3''
     \<and> st_matrix st' ! 1 ! 2 = []"
proof -
  have n: "parseInt (st_n ragged_form) = Num 2" and m: "parseInt (st_m ragged_form) = Num 3"
    by (simp_all add: ragged_form_def parse_defs)
  from C2_resize_preserves [OF n _ _ m]
  obtain st' where eff: "resize_effect ragged_form = Inr st'"
    and len: "length (st_matrix st') = nat 2"
    and c: "\<forall>i < nat 2. \<forall>j < nat 3. st_matrix st' ! i ! j =
          (if i < length (st_matrix ragged_form) \<and> j < length (st_matrix ragged_form ! i)
           then st_matrix ragged_form ! i ! j else [])"
    by auto
  have "st_matrix st' ! 0 ! 1 = ''2''" "st_matrix st' ! 1 ! 0 = ''3''" "st_matrix st' ! 1 ! 2 = []"
    using c [rule_format, of 0 1] c [rule_format, of 1 0] c [rule_format, of 1 2]
    by (simp_all add: ragged_form_def)
  with eff len show ?thesis by simp
qed

text \<open>
  The claim without the bound fails: with N = \<open>4294967296\<close> and M = 1, both accepted by
  the N and M fields, \<open>Array(numN)\<close> throws and the effect produces no buffer.
\<close>

theorem C2_resize_counterexample:
  "parseInt (st_n oversized_form) = Num 4294967296
   \<and> parseInt (st_m oversized_form) = Num 1
   \<and> matches_positive (st_n oversized_form)
   \<and> resize_effect oversized_form = Inl ''Invalid array length''"
proof -
  have n: "parseInt (st_n oversized_form) = Num 4294967296"
    by (simp add: oversized_form_def rounded_parse)
  have m: "parseInt (st_m oversized_form) = Num 1"
    by (simp add: oversized_form_def parse_defs)
  have "resize_matrix (Num 4294967296) (Num 1) (st_matrix oversized_form) = Inl ''Invalid array length''"
    by (rule resize_matrix_too_large) simp_all
  then have "resize_effect oversized_form = Inl ''Invalid array length''"
    using n m by (simp add: resize_effect_def dims_valid_def numN_def numM_def)
  moreover have "matches_positive (st_n oversized_form)"
    by (simp add: oversized_form_def matches_positive_def is_digit_def)
  ultimately show ?thesis using n m by simp
qed

section \<open>One solve request at a time\<close>

subsection \<open>Fields a handler leaves alone\<close>

lemma with_form_halt_fields:
  "st_loading (app_form (halt a)) = st_loading (app_form a)"
  "solve_pending (halt a) = solve_pending a"
  by (simp_all add: halt_def)

lemma numeric_change_loading:
  "st_loading (handleNumericInputChange setN f z v st) = st_loading st"
  "st_loading (handleNumericInputChange setM f z v st) = st_loading st"
  "st_loading (handleNumericInputChange setP f z v st) = st_loading st"
  by (simp_all add: handleNumericInputChange_def setN_def setM_def setP_def Let_def)

lemma cell_change_loading:
  "handleMatrixCellChange i j v st = Some st' \<Longrightarrow> st_loading st' = st_loading st"
  by (auto simp: handleMatrixCellChange_def Let_def split: if_splits option.splits)

lemma validateForm_loading:
  "validateForm st = Some (ok, st1) \<Longrightarrow> st_loading st1 = st_loading st"
  by (auto simp: validateForm_def Let_def split: option.splits)

lemma submit_begin_loading:
  "handleSubmit_begin st = Some (st1, r) \<Longrightarrow>
     st_loading st1 = (if r = None then st_loading st else True)"
  by (auto simp: handleSubmit_begin_def validateForm_def Let_def split: if_splits option.splits)

lemma submit_settle_loading: "\<not> st_loading (handleSubmit_settle outcome st)"
  by (simp add: handleSubmit_settle_def Let_def split: sum.split)

lemma search_loading:
  "st_loading (setSearchId v st) = st_loading st"
  "st_loading (fst (handleSearch_begin st)) = st_loading st"
  "st_loading (handleSearch_settle outcome st) = st_loading st"
  by (simp_all add: setSearchId_def handleSearch_begin_def handleSearch_settle_def Let_def
      split: sum.split)

lemma fire_solve_serialized:
  assumes "solve_serialized a" and "fire e a = Some a'"
  shows "solve_serialized a'"
proof (cases e)
  case ClickSolve
  then show ?thesis
    using assms
    by (auto simp: fire_def solve_serialized_def with_form_fields with_form_halt_fields
        solve_button_disabled_def Let_def dest: submit_begin_loading
        split: if_splits prod.splits option.splits)
next
  case (SolveSettled outcome)
  then show ?thesis
    using assms
    by (auto simp: fire_def solve_serialized_def with_form_fields
        submit_settle_loading Let_def split: if_splits)
next
  case (ChangeCell i j v)
  then show ?thesis
    using assms
    by (auto simp: fire_def solve_serialized_def with_form_fields
        Let_def dest: cell_change_loading split: if_splits)
next
  case BlurField
  then show ?thesis
    using assms
    by (auto simp: fire_def solve_serialized_def with_form_fields with_form_halt_fields
        Let_def dest: validateForm_loading split: if_splits option.splits)
next
  case ClickSearch
  then show ?thesis
    using assms search_loading(2) [of "app_form a"]
    by (auto simp: fire_def solve_serialized_def with_form_fields
        Let_def split: if_splits prod.splits option.splits)
qed (use assms in \<open>auto simp: fire_def solve_serialized_def with_form_fields
        numeric_change_loading search_loading Let_def split: if_splits\<close>)

lemma reachable_solve_serialized: "reachable a \<Longrightarrow> solve_serialized a"
proof (induction rule: reachable.induct)
  case reachable_init
  show ?case
    by (simp add: solve_serialized_def initial_app_def initial_state_def)
next
  case (reachable_step a e a')
  then show ?case by (blast intro: fire_solve_serialized)
qed

lemma run_reachable: "reachable a \<Longrightarrow> run es a = Some a' \<Longrightarrow> reachable a'"
proof (induction es arbitrary: a)
  case Nil
  then show ?case by simp
next
  case (Cons e es)
  then show ?case
    by (auto split: option.splits if_splits intro: reachable_step)
qed

text \<open>
  C7. In every reachable state at most one solve request is in flight. A click on Solve that
  issues a request leaves \<open>loading\<close> set and the button disabled; while the request is
  in flight \<open>loading\<close> stays set whatever else happens, the button is disabled and a click
  on it is not offered; when the request settles, with any outcome, \<open>loading\<close> is cleared,
  no request is in flight and the button is disabled only if the form is not potentially
  valid.
\<close>

theorem C7_solve_serialized:
  assumes "reachable a"
  shows "solve_pending a \<le> 1
     \<and> (\<forall>a'. fire ClickSolve a = Some a' \<and> solve_pending a' = solve_pending a + 1 \<longrightarrow>
            st_loading (app_form a') \<and> solve_button_disabled (app_form a'))
     \<and> (0 < solve_pending a \<longrightarrow>
            st_loading (app_form a) \<and> solve_button_disabled (app_form a)
            \<and> fire ClickSolve a = None)
     \<and> (\<forall>e a'. 0 < solve_pending a \<and> fire e a = Some a' \<and> (\<forall>outcome. e \<noteq> SolveSettled outcome) \<longrightarrow>
            0 < solve_pending a' \<and> st_loading (app_form a'))
     \<and> (\<forall>outcome a'. fire (SolveSettled outcome) a = Some a' \<longrightarrow>
            \<not> st_loading (app_form a') \<and> solve_pending a' = 0
            \<and> (solve_button_disabled (app_form a') \<longleftrightarrow> \<not> isFormPotentiallyValid (app_form a')))"
proof (intro conjI allI impI)
  note inv = reachable_solve_serialized [OF assms]
  show "solve_pending a \<le> 1"
    using inv by (simp add: solve_serialized_def split: if_splits)
  show "st_loading (app_form a)" if "0 < solve_pending a"
    using inv that by (simp add: solve_serialized_def split: if_splits)
  then show "solve_button_disabled (app_form a)" if "0 < solve_pending a"
    using that by (simp add: solve_button_disabled_def)
  then show "fire ClickSolve a = None" if "0 < solve_pending a"
    using that by (simp add: fire_def)
next
  fix a'
  assume h: "fire ClickSolve a = Some a' \<and> solve_pending a' = solve_pending a + 1"
  from fire_solve_serialized [OF reachable_solve_serialized [OF assms]] h
  have "solve_serialized a'" by blast
  with h show "st_loading (app_form a')"
    by (simp add: solve_serialized_def split: if_splits)
  then show "solve_button_disabled (app_form a')"
    by (simp add: solve_button_disabled_def)
next
  fix e a'
  assume h: "0 < solve_pending a \<and> fire e a = Some a' \<and> (\<forall>outcome. e \<noteq> SolveSettled outcome)"
  have l: "st_loading (app_form a)"
    using reachable_solve_serialized [OF assms] h by (simp add: solve_serialized_def split: if_splits)
  have "solve_pending a' = solve_pending a"
    using h l by (cases e) (auto simp: fire_def with_form_fields with_form_halt_fields
        solve_button_disabled_def Let_def split: if_splits prod.splits option.splits)
  then show p: "0 < solve_pending a'" using h by simp
  from fire_solve_serialized [OF reachable_solve_serialized [OF assms]] h
  have "solve_serialized a'" by blast
  with p show "st_loading (app_form a')"
    by (simp add: solve_serialized_def split: if_splits)
next
  fix outcome a'
  assume h: "fire (SolveSettled outcome) a = Some a'"
  then have f: "a' = (with_form a (handleSubmit_settle outcome (app_form a)))
                       \<lparr>solve_pending := solve_pending a - 1\<rparr>"
    by (auto simp: fire_def Let_def split: if_splits)
  show l: "\<not> st_loading (app_form a')"
    by (simp add: f with_form_fields submit_settle_loading)
  from fire_solve_serialized [OF reachable_solve_serialized [OF assms] h] l
  show "solve_pending a' = 0"
    by (simp add: solve_serialized_def)
  show "solve_button_disabled (app_form a') \<longleftrightarrow> \<not> isFormPotentiallyValid (app_form a')"
    using l by (simp add: solve_button_disabled_def)
qed

theorem C7_solve_serialized_witness:
  "\<exists>a. run solve_events initial_app = Some a \<and> solve_pending a = 1 \<and> st_loading (app_form a)
       \<and> solve_button_disabled (app_form a) \<and> fire ClickSolve a = None
       \<and> (\<exists>a'. fire (SolveSettled (Inr html_500)) a = Some a' \<and> \<not> st_loading (app_form a')
                 \<and> solve_pending a' = 0)"
proof -
  have "map_option solve_pending (run solve_events initial_app) = Some 1"
    by code_simp
  then obtain a where a: "run solve_events initial_app = Some a" and p: "solve_pending a = 1"
    by auto
  have "reachable a"
    using run_reachable [OF reachable_init a] .
  note t = C7_solve_serialized [OF this]
  from p obtain a' where "fire (SolveSettled (Inr html_500)) a = Some a'"
    by (simp add: fire_def)
  with t p a show ?thesis
    by auto
qed

section \<open>The buffer follows the dimensions\<close>











text \<open>Entering \<open>2^32\<close> for N when M is 1 halts the component.\<close>

lemma oversize_halts: "map_option app_halted (run oversize_events initial_app) = Some True"
  by code_simp




end
